theory Spec2Isabelle
  imports Main
begin

section \<open>The logging bootstrap of \<^verbatim>\<open>src/utils/logger.py\<close>\<close>

text \<open>
  The module resolves a logging configuration file, loads it, or falls back to a console
  handler plus a rotating file handler, and hands out named loggers. Everything it does
  goes through the Python standard library (\<^verbatim>\<open>os\<close>, \<^verbatim>\<open>pathlib\<close>,
  \<^verbatim>\<open>logging\<close>), so the embedding has two layers: a small model of the library calls
  the module makes, each with the arguments and defaults the module uses, and on top of
  it the module's three functions, translated statement by statement.
\<close>

subsection \<open>Paths, the environment and the filesystem\<close>

text \<open>
  A \<^verbatim>\<open>pathlib.Path\<close> is kept by the text it was built from. A \<^verbatim>\<open>Path\<close> object is
  always truthy (the class defines neither \<^verbatim>\<open>__bool__\<close> nor \<^verbatim>\<open>__len__\<close>).
\<close>

datatype path = Path string

text \<open>The argument type \<^verbatim>\<open>Optional[str | Path]\<close>: \<open>None\<close> is Python's \<^verbatim>\<open>None\<close>.\<close>

datatype path_arg = StrArg string | PathArg path

text \<open>Python truthiness of such an argument: \<^verbatim>\<open>None\<close> and the empty string are falsy.\<close>

fun truthy :: "path_arg option \<Rightarrow> bool" where
  "truthy None = False"
| "truthy (Some (StrArg s)) = (s \<noteq> [])"
| "truthy (Some (PathArg p)) = True"

text \<open>\<^verbatim>\<open>Path(x)\<close> for a string or a path.\<close>

fun to_path :: "path_arg \<Rightarrow> path" where
  "to_path (StrArg s) = Path s"
| "to_path (PathArg p) = p"

text \<open>
  \<^verbatim>\<open>str(p)\<close> and \<^verbatim>\<open>p.as_posix()\<close> give the normalised text of a POSIX path:
  the root (\<^verbatim>\<open>/\<close>, or \<^verbatim>\<open>//\<close> for exactly two leading slashes), then the components
  that are neither empty nor \<^verbatim>\<open>.\<close>, joined by \<^verbatim>\<open>/\<close>; a path without root and
  components is \<^verbatim>\<open>.\<close>.
\<close>

fun split_on :: "char \<Rightarrow> string \<Rightarrow> string list" where
  "split_on c [] = [[]]"
| "split_on c (x # xs) =
     (if x = c then [] # split_on c xs
      else (case split_on c xs of [] \<Rightarrow> [[x]] | w # ws \<Rightarrow> (x # w) # ws))"

fun join_with :: "string \<Rightarrow> string list \<Rightarrow> string" where
  "join_with sep [] = []"
| "join_with sep [w] = w"
| "join_with sep (w # v # ws) = w @ sep @ join_with sep (v # ws)"

definition path_root :: "string \<Rightarrow> string" where
  "path_root s =
     (let n = length (takeWhile (\<lambda>c. c = CHR ''/'') s) in
      if n = 0 then [] else if n = 2 then ''//'' else ''/'')"

definition path_parts :: "string \<Rightarrow> string list" where
  "path_parts s = filter (\<lambda>w. w \<noteq> [] \<and> w \<noteq> ''.'') (split_on CHR ''/'' s)"

definition posix_text :: "string \<Rightarrow> string" where
  "posix_text s =
     (let body = join_with ''/'' (path_parts s) in
      if path_root s \<noteq> [] then path_root s @ body
      else if body = [] then ''.'' else body)"

definition str :: "path \<Rightarrow> string" where
  "str p = (case p of Path s \<Rightarrow> posix_text s)"

definition as_posix :: "path \<Rightarrow> string" where
  "as_posix p = (case p of Path s \<Rightarrow> posix_text s)"

text \<open>\<^verbatim>\<open>p / name\<close> on relative paths.\<close>

fun path_join :: "path \<Rightarrow> string \<Rightarrow> path" where
  "path_join (Path d) name = Path (d @ ''/'' @ name)"

text \<open>\<^verbatim>\<open>p.parent\<close>: the path without its last component.\<close>

fun parent :: "path \<Rightarrow> path" where
  "parent (Path s) =
     (let d = rev (dropWhile (\<lambda>c. c \<noteq> CHR ''/'') (rev s)) in
      if d = [] then Path ''.''
      else if butlast d = [] then Path ''/''
      else Path (butlast d))"

text \<open>
  What the operating system answers for a path: nothing there, a regular file, a
  directory, or an entry whose \<^verbatim>\<open>stat\<close> fails with an error that pathlib does not
  turn into \<^verbatim>\<open>False\<close> (permission denied on a parent directory, for example).
\<close>

datatype node = Missing | RegularFile | Directory | Inaccessible

record filesystem =
  node :: "path \<Rightarrow> node"
  writable :: "path \<Rightarrow> bool"

text \<open>
  The exceptions that occur, all of them subclasses of \<^verbatim>\<open>Exception\<close>.
  \<open>ConfigError\<close> stands for whatever else the loader raises.
\<close>

datatype exn = PermissionError | FileExistsError | FileNotFoundError | IsADirectoryError
  | UnicodeEncodeError | ConfigError string

subsection \<open>The state of the \<^verbatim>\<open>logging\<close> module\<close>

definition logging_NOTSET :: nat where "logging_NOTSET = 0"
definition logging_DEBUG :: nat where "logging_DEBUG = 10"
definition logging_INFO :: nat where "logging_INFO = 20"
definition logging_WARNING :: nat where "logging_WARNING = 30"
definition logging_ERROR :: nat where "logging_ERROR = 40"

record formatter =
  fmt :: string
  datefmt :: "string option"

text \<open>
  A handler is a console stream handler (\<^verbatim>\<open>StreamHandler()\<close>, writing to
  \<^verbatim>\<open>sys.stderr\<close>) or a \<^verbatim>\<open>RotatingFileHandler\<close> with its file, \<^verbatim>\<open>maxBytes\<close>,
  \<^verbatim>\<open>backupCount\<close> and \<^verbatim>\<open>encoding\<close>.
\<close>

datatype handler_kind = StreamHandler | RotatingFileHandler path nat nat string

record handler =
  h_kind :: handler_kind
  h_level :: nat
  h_formatter :: "formatter option"

record logger =
  lg_level :: nat
  lg_handlers :: "handler list"

text \<open>
  A logger handle is a reference: the root logger, or the address of a named logger
  object. \<open>loggerDict\<close> is the manager's registry from names to addresses and
  \<open>objects\<close> the store of logger objects, one per address.
\<close>

datatype logger_ref = RootRef | Ref nat

text \<open>One call of a logging method: which logger, the level, the message and its
  arguments, and the exception attached by \<^verbatim>\<open>exc_info\<close>.\<close>

record log_call =
  lc_logger :: logger_ref
  lc_level :: nat
  lc_msg :: string
  lc_args :: "string list"
  lc_exc_info :: "exn option"

record logging =
  root :: logger
  loggerDict :: "string \<rightharpoonup> nat"
  objects :: "nat \<Rightarrow> logger"
  next_ref :: nat
  calls :: "log_call list"

text \<open>
  The process: its environment, the names that \<^verbatim>\<open>os.environ\<close> can encode in the
  filesystem encoding (a name with a lone surrogate is a \<^verbatim>\<open>str\<close> that it cannot),
  the filesystem and the logging module.
\<close>

record state =
  environ :: "string \<rightharpoonup> string"
  encodable :: "string \<Rightarrow> bool"
  fs :: filesystem
  logging :: logging

text \<open>A call returns with the new state, or raises with the state it leaves behind.\<close>

datatype outcome = Returns state | Raises exn state

fun final_state :: "outcome \<Rightarrow> state" where
  "final_state (Returns s) = s"
| "final_state (Raises e s) = s"

subsection \<open>The library calls the module makes\<close>

text \<open>
  \<^verbatim>\<open>os.getenv(key)\<close> and \<^verbatim>\<open>os.getenv(key, default)\<close> on a name that can be
  encoded: reads. On any other name \<^verbatim>\<open>os.getenv\<close> raises \<^verbatim>\<open>UnicodeEncodeError\<close>;
  \<open>setup_logging\<close> below has that case.
\<close>

definition os_getenv :: "string \<Rightarrow> state \<Rightarrow> string option \<times> state" where
  "os_getenv key st = (environ st key, st)"

definition os_getenv_default :: "string \<Rightarrow> string \<Rightarrow> state \<Rightarrow> string \<times> state" where
  "os_getenv_default key dflt st =
     (case environ st key of None \<Rightarrow> (dflt, st) | Some v \<Rightarrow> (v, st))"

text \<open>
  \<^verbatim>\<open>Path.is_file()\<close>: a read; true on a regular file, false on a directory or a missing
  entry, and an exception where the \<^verbatim>\<open>stat\<close> fails otherwise.
\<close>

definition is_file :: "path \<Rightarrow> state \<Rightarrow> (exn + bool) \<times> state" where
  "is_file p st =
     (case node (fs st) p of
        RegularFile \<Rightarrow> (Inr True, st)
      | Inaccessible \<Rightarrow> (Inl PermissionError, st)
      | _ \<Rightarrow> (Inr False, st))"

text \<open>
  \<^verbatim>\<open>Path.mkdir(parents=True, exist_ok=True)\<close>: nothing to do on a directory, an error
  on any other entry, and a new directory where the process may create one.
\<close>

definition mkdir :: "path \<Rightarrow> state \<Rightarrow> outcome" where
  "mkdir p st =
     (case node (fs st) p of
        Directory \<Rightarrow> Returns st
      | RegularFile \<Rightarrow> Raises FileExistsError st
      | Inaccessible \<Rightarrow> Raises PermissionError st
      | Missing \<Rightarrow>
          if writable (fs st) p
          then Returns (st\<lparr>fs := (fs st)\<lparr>node := (node (fs st))(p := Directory)\<rparr>\<rparr>)
          else Raises PermissionError st)"

text \<open>
  Opening a file in append mode, as the file handler's constructor does: the file is
  created when it is missing and its directory is there.
\<close>

definition open_append :: "path \<Rightarrow> state \<Rightarrow> outcome" where
  "open_append p st =
     (case node (fs st) p of
        Directory \<Rightarrow> Raises IsADirectoryError st
      | Inaccessible \<Rightarrow> Raises PermissionError st
      | RegularFile \<Rightarrow> if writable (fs st) p then Returns st else Raises PermissionError st
      | Missing \<Rightarrow>
          if node (fs st) (parent p) \<noteq> Directory then Raises FileNotFoundError st
          else if writable (fs st) p
          then Returns (st\<lparr>fs := (fs st)\<lparr>node := (node (fs st))(p := RegularFile)\<rparr>\<rparr>)
          else Raises PermissionError st)"

text \<open>
  \<^verbatim>\<open>logging.getLogger(name)\<close>: the root logger for an empty name or the root's name,
  otherwise the object registered under the name, created and registered on the first
  request.
\<close>

definition logging_getLogger :: "string \<Rightarrow> logging \<Rightarrow> logger_ref \<times> logging" where
  "logging_getLogger name lg =
     (if name = [] \<or> name = ''root'' then (RootRef, lg)
      else case loggerDict lg name of
        Some a \<Rightarrow> (Ref a, lg)
      | None \<Rightarrow>
          (Ref (next_ref lg),
           lg\<lparr>loggerDict := (loggerDict lg)(name \<mapsto> next_ref lg),
              objects := (objects lg)(next_ref lg :=
                 \<lparr>lg_level = logging_NOTSET, lg_handlers = []\<rparr>),
              next_ref := Suc (next_ref lg)\<rparr>))"

text \<open>\<^verbatim>\<open>Logger.setLevel\<close> and the \<^verbatim>\<open>level\<close> attribute, through a handle.\<close>

fun setLevel :: "logger_ref \<Rightarrow> nat \<Rightarrow> logging \<Rightarrow> logging" where
  "setLevel RootRef lvl lg = lg\<lparr>root := (root lg)\<lparr>lg_level := lvl\<rparr>\<rparr>"
| "setLevel (Ref a) lvl lg = lg\<lparr>objects := (objects lg)(a := (objects lg a)\<lparr>lg_level := lvl\<rparr>)\<rparr>"

fun level_of :: "logger_ref \<Rightarrow> logging \<Rightarrow> nat" where
  "level_of RootRef lg = lg_level (root lg)"
| "level_of (Ref a) lg = lg_level (objects lg a)"

text \<open>
  What a logging method called on \<^verbatim>\<open>logging.getLogger(name)\<close> leaves in the logging
  state: the logger is looked up (and registered), and the call is recorded.
\<close>

definition log_via :: "string \<Rightarrow> nat \<Rightarrow> string \<Rightarrow> string list \<Rightarrow> exn option \<Rightarrow> logging \<Rightarrow> logging" where
  "log_via name lvl msg args exc lg =
     (case logging_getLogger name lg of
        (h, lg1) \<Rightarrow>
          lg1\<lparr>calls := calls lg1 @
            [\<lparr>lc_logger = h, lc_level = lvl, lc_msg = msg, lc_args = args, lc_exc_info = exc\<rparr>]\<rparr>)"

text \<open>
  \<^verbatim>\<open>logging.basicConfig(level=, format=, datefmt=, force=)\<close>. With \<^verbatim>\<open>force\<close> every
  handler of the root logger is removed first. If the root logger then has no handler,
  a \<^verbatim>\<open>StreamHandler\<close> with the formatter is added and the root logger's level is set;
  the new handler's own level stays \<^verbatim>\<open>NOTSET\<close>. Otherwise nothing changes.
\<close>

definition basicConfig :: "nat \<Rightarrow> string \<Rightarrow> string \<Rightarrow> bool \<Rightarrow> logging \<Rightarrow> logging" where
  "basicConfig lvl format dfmt force lg =
     (let kept = (if force then [] else lg_handlers (root lg)) in
      if kept = []
      then lg\<lparr>root := \<lparr>lg_level = lvl,
             lg_handlers = [\<lparr>h_kind = StreamHandler, h_level = logging_NOTSET,
                h_formatter = Some \<lparr>fmt = format, datefmt = Some dfmt\<rparr>\<rparr>]\<rparr>\<rparr>
      else lg)"

text \<open>
  \<^verbatim>\<open>RotatingFileHandler(filename, maxBytes=, backupCount=, encoding=)\<close>: a new handler
  with level \<^verbatim>\<open>NOTSET\<close> and no formatter; the file is opened for appending at once.
\<close>

definition new_RotatingFileHandler :: "path \<Rightarrow> nat \<Rightarrow> nat \<Rightarrow> string \<Rightarrow> handler" where
  "new_RotatingFileHandler p maxBytes backupCount encoding =
     \<lparr>h_kind = RotatingFileHandler p maxBytes backupCount encoding,
      h_level = logging_NOTSET, h_formatter = None\<rparr>"

text \<open>
  \<^verbatim>\<open>Logger.addHandler\<close> on the root logger, for a handler object that was just
  created: it is not yet in the list (handlers are compared by identity), so it is
  appended.
\<close>

definition addHandler :: "handler \<Rightarrow> logging \<Rightarrow> logging" where
  "addHandler h lg = lg\<lparr>root := (root lg)\<lparr>lg_handlers := lg_handlers (root lg) @ [h]\<rparr>\<rparr>"

text \<open>
  \<^verbatim>\<open>logging.config.fileConfig(fname, disable_existing_loggers=)\<close> depends on the
  content of the file, which is not part of the state: it is a parameter, any function
  of the file name, the flag and the state that returns or raises.
\<close>

type_synonym loader = "string \<Rightarrow> bool \<Rightarrow> state \<Rightarrow> outcome"

text \<open>
  A logging call can raise. The record goes to the handlers of the named logger and of
  its ancestors, and \<^verbatim>\<open>Logger.handle\<close>, \<^verbatim>\<open>callHandlers\<close> and \<^verbatim>\<open>Handler.handle\<close>
  catch nothing: a \<^verbatim>\<open>StreamHandler\<close> and a \<^verbatim>\<open>RotatingFileHandler\<close> catch the errors
  of their own \<^verbatim>\<open>emit\<close>, but a \<^verbatim>\<open>FileHandler\<close> created with \<^verbatim>\<open>delay=True\<close> opens
  its file outside any \<^verbatim>\<open>try\<close>, and a handler or filter of another class may raise
  what it likes. Which handlers a record reaches is decided by loggers the model does not
  keep, so this is a parameter as well: for a logger name, a level and the state, the
  exception that a logging call raises there, if any.
\<close>

type_synonym emission = "string \<Rightarrow> nat \<Rightarrow> state \<Rightarrow> exn option"

definition logger_call :: "emission \<Rightarrow> string \<Rightarrow> nat \<Rightarrow> string \<Rightarrow> string list \<Rightarrow> exn option \<Rightarrow> state \<Rightarrow> outcome" where
  "logger_call emit_error name lvl msg args exc st =
     (let st1 = st\<lparr>logging := log_via name lvl msg args exc (logging st)\<rparr> in
      case emit_error name lvl st of
        None \<Rightarrow> Returns st1
      | Some e \<Rightarrow> Raises e st1)"

subsection \<open>The module\<close>

definition DEFAULT_LOGGING_CONF_PATH :: path where
  "DEFAULT_LOGGING_CONF_PATH = path_join (Path ''config'') ''logging.conf''"

text \<open>The module's \<^verbatim>\<open>__name__\<close>, imported as its docstring shows.\<close>

definition logger_module :: string where
  "logger_module = ''src.utils.logger''"

text \<open>Lines 55 to 64: the candidate list.\<close>

definition candidate_paths :: "path_arg option \<Rightarrow> string \<Rightarrow> state \<Rightarrow> path list \<times> state" where
  "candidate_paths override_path env_var st =
     (let candidates = (case override_path of
                          None \<Rightarrow> []
                        | Some a \<Rightarrow> if truthy override_path then [to_path a] else []) in
      case os_getenv env_var st of
        (env_value, st1) \<Rightarrow>
          (let candidates = (case env_value of
                               None \<Rightarrow> candidates
                             | Some v \<Rightarrow> if v \<noteq> [] then candidates @ [Path v] else candidates)
           in (candidates @ [DEFAULT_LOGGING_CONF_PATH], st1)))"

text \<open>Lines 66 to 74: the probing loop; an exception of the probe is ignored.\<close>

fun probe_candidates :: "path list \<Rightarrow> state \<Rightarrow> path option \<times> state" where
  "probe_candidates [] st = (None, st)"
| "probe_candidates (candidate # rest) st =
     (case is_file candidate st of
        (Inr True, st1) \<Rightarrow> (Some candidate, st1)
      | (Inr False, st1) \<Rightarrow> probe_candidates rest st1
      | (Inl e, st1) \<Rightarrow> probe_candidates rest st1)"

text \<open>
  Lines 33 to 74: \<^verbatim>\<open>_resolve_logging_config_path\<close>, for a variable name that
  \<^verbatim>\<open>os.getenv\<close> can encode.
\<close>

definition resolve_logging_config_path :: "path_arg option \<Rightarrow> string \<Rightarrow> state \<Rightarrow> path option \<times> state" where
  "resolve_logging_config_path override_path env_var st =
     (case candidate_paths override_path env_var st of
        (candidates, st1) \<Rightarrow> probe_candidates candidates st1)"

text \<open>The format and date format, written out at lines 111 to 112 and 123 to 124.\<close>

definition LOG_FORMAT :: string where
  "LOG_FORMAT = ''%(asctime)s | %(levelname)-8s | %(name)s | %(message)s''"

definition LOG_DATEFMT :: string where
  "LOG_DATEFMT = ''%Y-%m-%d %H:%M:%S''"

text \<open>
  Line 107: the level of the default configuration. The name \<^verbatim>\<open>DEBUG\<close> is ASCII,
  which every filesystem encoding can encode.
\<close>

definition select_log_level :: "state \<Rightarrow> nat \<times> state" where
  "select_log_level st =
     (case os_getenv_default ''DEBUG'' ''0'' st of
        (dbg, st1) \<Rightarrow> (if dbg = ''1'' then logging_DEBUG else logging_INFO, st1))"

text \<open>
  Lines 106 to 130: the default configuration. Nothing here is inside a \<^verbatim>\<open>try\<close>:
  an error of \<^verbatim>\<open>mkdir\<close>, of opening the log file or of the last logging call reaches
  the caller.
\<close>

definition default_configuration :: "emission \<Rightarrow> state \<Rightarrow> outcome" where
  "default_configuration emit_error st =
     (case select_log_level st of
        (log_level, st1) \<Rightarrow>
          (let st2 = st1\<lparr>logging := basicConfig log_level LOG_FORMAT LOG_DATEFMT True (logging st1)\<rparr>;
               log_file = Path ''logs/app.log''
           in case mkdir (parent log_file) st2 of
                Raises e st3 \<Rightarrow> Raises e st3
              | Returns st3 \<Rightarrow>
                  (case open_append log_file st3 of
                     Raises e st4 \<Rightarrow> Raises e st4
                   | Returns st4 \<Rightarrow>
                       (let file_handler = new_RotatingFileHandler log_file 5000000 5 ''utf-8'';
                            file_handler = file_handler\<lparr>h_formatter :=
                               Some \<lparr>fmt = LOG_FORMAT, datefmt = Some LOG_DATEFMT\<rparr>\<rparr>;
                            file_handler = file_handler\<lparr>h_level := log_level\<rparr>;
                            st5 = st4\<lparr>logging := addHandler file_handler (logging st4)\<rparr>
                        in logger_call emit_error logger_module logging_DEBUG
                             ''Logging configured with basicConfig + RotatingFileHandler (no config file found)''
                             [] None st5))))"

text \<open>
  Lines 95 to 98, the body of the \<^verbatim>\<open>try\<close>: the load and, when it returns, the debug
  call. An exception of either one is caught at line 100.
\<close>

definition try_load :: "loader \<Rightarrow> emission \<Rightarrow> path \<Rightarrow> state \<Rightarrow> outcome" where
  "try_load fileConfig emit_error resolved_path st =
     (case fileConfig (str resolved_path) False st of
        Raises e st1 \<Rightarrow> Raises e st1
      | Returns st1 \<Rightarrow>
          logger_call emit_error logger_module logging_DEBUG
            ''Logging configured from file: %s'' [as_posix resolved_path] None st1)"

text \<open>
  Lines 91 to 130. Line 91 raises when \<^verbatim>\<open>os.getenv\<close> (line 60) cannot encode the
  variable's name; up to there the function has only built a local list. The
  \<^verbatim>\<open>exception\<close> call of line 101 is in the \<^verbatim>\<open>except\<close> branch, outside the
  \<^verbatim>\<open>try\<close>.
\<close>

definition setup_logging :: "loader \<Rightarrow> emission \<Rightarrow> path_arg option \<Rightarrow> string \<Rightarrow> state \<Rightarrow> outcome" where
  "setup_logging fileConfig emit_error config_path env_var st =
     (if \<not> encodable st env_var then Raises UnicodeEncodeError st
      else case resolve_logging_config_path config_path env_var st of
        (None, st1) \<Rightarrow> default_configuration emit_error st1
      | (Some resolved_path, st1) \<Rightarrow>
          (case try_load fileConfig emit_error resolved_path st1 of
             Returns st2 \<Rightarrow> Returns st2
           | Raises e st2 \<Rightarrow>
               (case logger_call emit_error logger_module logging_ERROR
                       ''Failed to configure logging from %s. Falling back to basicConfig.''
                       [str resolved_path] (Some e) st2 of
                  Raises e' st3 \<Rightarrow> Raises e' st3
                | Returns st3 \<Rightarrow> default_configuration emit_error st3)))"

definition DEFAULT_LOGGER_NAME :: string where
  "DEFAULT_LOGGER_NAME = ''predictive_maintenance_system''"

text \<open>Line 149; an absent name is \<open>None\<close>.\<close>

definition get_logger :: "string option \<Rightarrow> logging \<Rightarrow> logger_ref \<times> logging" where
  "get_logger name lg =
     logging_getLogger
       (case name of None \<Rightarrow> DEFAULT_LOGGER_NAME
        | Some n \<Rightarrow> if n \<noteq> [] then n else DEFAULT_LOGGER_NAME) lg"

subsection \<open>Notions of the specification\<close>

text \<open>A candidate "exists as a regular file".\<close>

definition exists_as_regular_file :: "state \<Rightarrow> path \<Rightarrow> bool" where
  "exists_as_regular_file st p = (node (fs st) p = RegularFile)"

text \<open>
  The ordered candidate list in the specification's words: the override path if it is
  given, the value of the environment variable if it is set, and the default path. A
  path or a value counts as given when it is present and not the empty string.
\<close>

definition spec_candidate_list :: "path_arg option \<Rightarrow> string option \<Rightarrow> path list" where
  "spec_candidate_list override_path env_value =
     (case override_path of
        None \<Rightarrow> []
      | Some (StrArg s) \<Rightarrow> if s = [] then [] else [Path s]
      | Some (PathArg p) \<Rightarrow> [p]) @
     (case env_value of None \<Rightarrow> [] | Some v \<Rightarrow> if v = [] then [] else [Path v]) @
     [Path ''config/logging.conf'']"

text \<open>
  The same list when "given" and "set" are read as "not \<^verbatim>\<open>None\<close>", so that an empty
  string contributes \<^verbatim>\<open>Path("")\<close>. For pathlib that is the current directory, which is
  never a regular file.
\<close>

definition literal_candidate_list :: "path_arg option \<Rightarrow> string option \<Rightarrow> path list" where
  "literal_candidate_list override_path env_value =
     (case override_path of None \<Rightarrow> [] | Some a \<Rightarrow> [to_path a]) @
     (case env_value of None \<Rightarrow> [] | Some v \<Rightarrow> [Path v]) @
     [Path ''config/logging.conf'']"

text \<open>
  "The call takes the fallback path": no configuration file is resolved, or the
  \<^verbatim>\<open>try\<close> of lines 94 to 99 raises and the report of line 101 returns.
  \<open>fallback_entry\<close> is the state in which the default configuration then starts, and
  \<open>None\<close> when the call ends without reaching line 106.
\<close>

definition fallback_entry :: "loader \<Rightarrow> emission \<Rightarrow> path_arg option \<Rightarrow> string \<Rightarrow> state \<Rightarrow> state option" where
  "fallback_entry fileConfig emit_error config_path env_var st =
     (if \<not> encodable st env_var then None
      else case resolve_logging_config_path config_path env_var st of
        (None, st1) \<Rightarrow> Some st1
      | (Some resolved_path, st1) \<Rightarrow>
          (case try_load fileConfig emit_error resolved_path st1 of
             Returns st2 \<Rightarrow> None
           | Raises e st2 \<Rightarrow>
               (case logger_call emit_error logger_module logging_ERROR
                       ''Failed to configure logging from %s. Falling back to basicConfig.''
                       [str resolved_path] (Some e) st2 of
                  Raises e' st3 \<Rightarrow> None
                | Returns st3 \<Rightarrow> Some st3)))"

text \<open>The module's own logging calls (lines 96, 101 and 130) do not raise.\<close>

definition own_calls_return :: "emission \<Rightarrow> bool" where
  "own_calls_return emit_error = (\<forall>lvl st. emit_error logger_module lvl st = None)"

text \<open>
  The filesystem lets the default configuration have its log file: \<^verbatim>\<open>logs\<close> is a
  directory or can be created, and \<^verbatim>\<open>logs/app.log\<close> is a regular file or missing and
  may be opened for writing.
\<close>

definition log_sink_ready :: "filesystem \<Rightarrow> bool" where
  "log_sink_ready f =
     ((node f (Path ''logs'') = Directory \<or>
       (node f (Path ''logs'') = Missing \<and> writable f (Path ''logs''))) \<and>
      (node f (Path ''logs/app.log'') = RegularFile \<or>
       node f (Path ''logs/app.log'') = Missing) \<and>
      writable f (Path ''logs/app.log''))"

text \<open>The level of the fallback: DEBUG if the variable \<^verbatim>\<open>DEBUG\<close> equals "1", else INFO.\<close>

definition fallback_level :: "state \<Rightarrow> nat" where
  "fallback_level st = (if environ st ''DEBUG'' = Some ''1'' then 10 else 20)"

text \<open>The two handlers of the fallback, as the specification describes them.\<close>

definition line_format :: formatter where
  "line_format = \<lparr>fmt = ''%(asctime)s | %(levelname)-8s | %(name)s | %(message)s'',
     datefmt = Some ''%Y-%m-%d %H:%M:%S''\<rparr>"

definition console_handler :: handler where
  "console_handler = \<lparr>h_kind = StreamHandler, h_level = 0, h_formatter = Some line_format\<rparr>"

definition rotating_file_handler :: "nat \<Rightarrow> handler" where
  "rotating_file_handler lvl =
     \<lparr>h_kind = RotatingFileHandler (Path ''logs/app.log'') 5000000 5 ''utf-8'',
      h_level = lvl, h_formatter = Some line_format\<rparr>"

fun is_rotating :: "handler \<Rightarrow> bool" where
  "is_rotating h = (case h_kind h of RotatingFileHandler p m b e \<Rightarrow> True | StreamHandler \<Rightarrow> False)"

text \<open>The handlers of the root logger, and the exception of an outcome.\<close>

definition root_handlers :: "state \<Rightarrow> handler list" where
  "root_handlers st = lg_handlers (root (logging st))"

fun raised :: "outcome \<Rightarrow> exn option" where
  "raised (Returns s) = None"
| "raised (Raises e s) = Some e"

subsection \<open>Concrete states\<close>

text \<open>
  A process that has just started in an empty, writable working directory: no
  environment variable, no file, the root logger at WARNING without handlers. Of the
  names that cannot be encoded none occurs below.
\<close>

definition fresh_fs :: filesystem where
  "fresh_fs = \<lparr>node = (\<lambda>p. Missing), writable = (\<lambda>p. True)\<rparr>"

definition fresh_logging :: logging where
  "fresh_logging = \<lparr>root = \<lparr>lg_level = logging_WARNING, lg_handlers = []\<rparr>,
     loggerDict = Map.empty,
     objects = (\<lambda>a. \<lparr>lg_level = logging_NOTSET, lg_handlers = []\<rparr>),
     next_ref = 0, calls = []\<rparr>"

definition fresh_state :: state where
  "fresh_state = \<lparr>environ = Map.empty, encodable = (\<lambda>name. True),
     fs = fresh_fs, logging = fresh_logging\<rparr>"

definition with_node :: "path \<Rightarrow> node \<Rightarrow> state \<Rightarrow> state" where
  "with_node p n st = st\<lparr>fs := (fs st)\<lparr>node := (node (fs st))(p := n)\<rparr>\<rparr>"

definition with_env :: "string \<Rightarrow> string \<Rightarrow> state \<Rightarrow> state" where
  "with_env k v st = st\<lparr>environ := (environ st)(k \<mapsto> v)\<rparr>"

text \<open>Handlers that accept every record.\<close>

definition quiet :: emission where
  "quiet name lvl st = None"

text \<open>
  Handlers that fail on every record of the module's logger, as a \<^verbatim>\<open>FileHandler\<close>
  with \<^verbatim>\<open>delay=True\<close> in a missing directory does; and handlers that fail on its
  debug records only.
\<close>

definition broken_handlers :: emission where
  "broken_handlers name lvl st = Some FileNotFoundError"

definition broken_debug_handlers :: emission where
  "broken_debug_handlers name lvl st =
     (if lvl = logging_DEBUG then Some FileNotFoundError else None)"

text \<open>A loader for which every file is a valid configuration that changes nothing, and
  one for which every file is malformed.\<close>

definition accepting_loader :: loader where
  "accepting_loader fname disable_existing_loggers st = Returns st"

definition rejecting_loader :: loader where
  "rejecting_loader fname disable_existing_loggers st = Raises (ConfigError fname) st"

text \<open>Three configuration files, the second one named by \<^verbatim>\<open>LOG_CFG\<close>.\<close>

definition three_configs :: state where
  "three_configs =
     with_node (Path ''my.conf'') RegularFile
       (with_node (Path ''env.conf'') RegularFile
         (with_node (Path ''config/logging.conf'') RegularFile
           (with_env ''LOG_CFG'' ''env.conf'' fresh_state)))"

text \<open>Only the default configuration file.\<close>

definition default_config_only :: state where
  "default_config_only = with_node (Path ''config/logging.conf'') RegularFile fresh_state"

text \<open>No configuration file, and a regular file where the log directory should be.\<close>

definition logs_is_a_file :: state where
  "logs_is_a_file = with_node (Path ''logs'') RegularFile fresh_state"

text \<open>
  The state in which the default configuration makes its last logging call when the log
  file can be had, and the state after that call.
\<close>

definition installed_by_default :: "state \<Rightarrow> state" where
  "installed_by_default st =
     st\<lparr>fs := (fs st)\<lparr>node := (node (fs st))
            (Path ''logs'' := Directory, Path ''logs/app.log'' := RegularFile)\<rparr>,
        logging := (logging st)\<lparr>root := \<lparr>lg_level = fallback_level st,
              lg_handlers = [console_handler, rotating_file_handler (fallback_level st)]\<rparr>\<rparr>\<rparr>"

definition configured_by_default :: "state \<Rightarrow> state" where
  "configured_by_default st =
     (installed_by_default st)\<lparr>logging := log_via logger_module logging_DEBUG
        ''Logging configured with basicConfig + RotatingFileHandler (no config file found)''
        [] None (logging (installed_by_default st))\<rparr>"

text \<open>The default configuration file, and an override path that cannot be probed.\<close>

definition unreadable_override :: state where
  "unreadable_override = with_node (Path ''secret.conf'') Inaccessible default_config_only"

text \<open>The variable \<^verbatim>\<open>LOG_CFG\<close> set to the empty string, and the default file.\<close>

definition empty_log_cfg :: state where
  "empty_log_cfg = with_env ''LOG_CFG'' [] default_config_only"

text \<open>A root logger that already has three handlers, and no configuration file.\<close>

definition crowded_state :: state where
  "crowded_state = fresh_state\<lparr>logging := fresh_logging\<lparr>root :=
     \<lparr>lg_level = logging_WARNING,
      lg_handlers = [rotating_file_handler 10, console_handler, console_handler]\<rparr>\<rparr>\<rparr>"

text \<open>The variable \<^verbatim>\<open>DEBUG\<close> set to "1", and set to another value.\<close>

definition debug_on :: state where
  "debug_on = with_env ''DEBUG'' ''1'' fresh_state"

definition debug_true :: state where
  "debug_true = with_env ''DEBUG'' ''true'' fresh_state"

text \<open>The state after the report of a rejected default configuration file.\<close>

definition reported :: state where
  "reported = default_config_only\<lparr>logging := log_via logger_module logging_ERROR
     ''Failed to configure logging from %s. Falling back to basicConfig.''
     [''config/logging.conf''] (Some (ConfigError ''config/logging.conf''))
     (logging default_config_only)\<rparr>"

section \<open>Facts about the library model and the module's parts\<close>

lemma is_file_reads: "snd (is_file p st) = st"
  by (simp add: is_file_def split: node.splits)

lemma probe_candidates_find:
  "probe_candidates cs st = (find (exists_as_regular_file st) cs, st)"
proof (induction cs)
  case Nil
  show ?case by simp
next
  case (Cons c cs)
  show ?case
    using Cons.IH
    by (cases "node (fs st) c") (simp_all add: is_file_def exists_as_regular_file_def)
qed

lemma default_path_text: "DEFAULT_LOGGING_CONF_PATH = Path ''config/logging.conf''"
  by (simp add: DEFAULT_LOGGING_CONF_PATH_def)

lemma candidate_paths_spec:
  "candidate_paths override_path env_var st =
     (spec_candidate_list override_path (environ st env_var), st)"
  by (simp add: candidate_paths_def spec_candidate_list_def os_getenv_def
        default_path_text split: option.splits path_arg.splits)

lemma resolve_find:
  "resolve_logging_config_path override_path env_var st =
     (find (exists_as_regular_file st)
        (spec_candidate_list override_path (environ st env_var)), st)"
  by (simp add: resolve_logging_config_path_def candidate_paths_spec probe_candidates_find)

lemma select_log_level_eq: "select_log_level st = (fallback_level st, st)"
  by (simp add: select_log_level_def os_getenv_default_def fallback_level_def
      logging_DEBUG_def logging_INFO_def split: option.splits)

lemma basicConfig_force:
  "basicConfig lvl LOG_FORMAT LOG_DATEFMT True lg =
     lg\<lparr>root := \<lparr>lg_level = lvl, lg_handlers = [console_handler]\<rparr>\<rparr>"
  by (simp add: basicConfig_def console_handler_def line_format_def LOG_FORMAT_def
      LOG_DATEFMT_def logging_NOTSET_def)

lemma log_via_root: "root (log_via name lvl msg args exc lg) = root lg"
  by (simp add: log_via_def logging_getLogger_def split: option.splits)

lemma log_via_calls:
  "calls (log_via name lvl msg args exc lg) =
     calls lg @ [\<lparr>lc_logger = fst (logging_getLogger name lg), lc_level = lvl, lc_msg = msg,
        lc_args = args, lc_exc_info = exc\<rparr>]"
  by (simp add: log_via_def logging_getLogger_def split: option.splits)

lemma line_format_eq: "\<lparr>fmt = LOG_FORMAT, datefmt = Some LOG_DATEFMT\<rparr> = line_format"
  by (simp add: line_format_def LOG_FORMAT_def LOG_DATEFMT_def)

lemma file_handler_eq:
  "(new_RotatingFileHandler (Path ''logs/app.log'') 5000000 5 ''utf-8'')
      \<lparr>h_formatter := Some line_format, h_level := lvl\<rparr> = rotating_file_handler lvl"
  by (simp add: new_RotatingFileHandler_def rotating_file_handler_def)

lemma mkdir_logs_ready:
  assumes "log_sink_ready (fs st)"
  shows "mkdir (Path ''logs'') st =
     Returns (st\<lparr>fs := (fs st)\<lparr>node := (node (fs st))(Path ''logs'' := Directory)\<rparr>\<rparr>)"
  using assms by (auto simp add: mkdir_def log_sink_ready_def fun_upd_idem split: node.splits)

lemma open_log_ready:
  assumes "log_sink_ready (fs st)"
  shows "open_append (Path ''logs/app.log'')
           (st\<lparr>fs := (fs st)\<lparr>node := (node (fs st))(Path ''logs'' := Directory)\<rparr>\<rparr>) =
     Returns (st\<lparr>fs := (fs st)\<lparr>node := (node (fs st))
        (Path ''logs'' := Directory, Path ''logs/app.log'' := RegularFile)\<rparr>\<rparr>)"
  using assms by (auto simp add: open_append_def log_sink_ready_def fun_upd_idem split: node.splits)

lemma exists_as_regular_file_environ:
  "exists_as_regular_file (st\<lparr>environ := e\<rparr>) = exists_as_regular_file st"
  by (simp add: fun_eq_iff exists_as_regular_file_def)

lemma mkdir_logging: "logging (final_state (mkdir p st)) = logging st"
  by (simp add: mkdir_def split: node.splits)

lemma open_append_logging: "logging (final_state (open_append p st)) = logging st"
  by (simp add: open_append_def split: node.splits)

lemma mkdir_not_ready:
  assumes "mkdir (Path ''logs'') st = Returns st3"
    and "open_append (Path ''logs/app.log'') st3 = Returns st4"
  shows "log_sink_ready (fs st)"
  using assms
  by (auto simp add: mkdir_def open_append_def log_sink_ready_def
      split: node.splits if_splits)

lemma is_rotating_console: "\<not> is_rotating console_handler"
  by (simp add: console_handler_def)

lemma is_rotating_file: "is_rotating (rotating_file_handler lvl)"
  by (simp add: rotating_file_handler_def)

lemma h_kind_file:
  "h_kind (rotating_file_handler lvl) =
     RotatingFileHandler (Path ''logs/app.log'') 5000000 5 ''utf-8''"
  by (simp add: rotating_file_handler_def)

lemma log_via_loggerDict:
  assumes "loggerDict lg n = Some a"
  shows "loggerDict (log_via name lvl msg args exc lg) n = Some a"
  using assms by (auto simp add: log_via_def logging_getLogger_def split: option.splits)

lemma getLogger_again:
  assumes "logging_getLogger name lg = (h, lg1)"
  shows "logging_getLogger name lg1 = (h, lg1)"
  using assms
  by (auto simp add: logging_getLogger_def split: if_splits option.splits)

lemma level_of_setLevel: "level_of h (setLevel h lvl lg) = lvl"
  by (cases h) simp_all

lemma find_literal_candidates:
  assumes "\<not> exists_as_regular_file st (Path [])"
  shows "find (exists_as_regular_file st) (literal_candidate_list override_path env_value)
       = find (exists_as_regular_file st) (spec_candidate_list override_path env_value)"
  using assms
  by (auto simp add: literal_candidate_list_def spec_candidate_list_def
      split: option.splits path_arg.splits)

lemma str_default: "str (Path ''config/logging.conf'') = ''config/logging.conf''"
  by (simp add: str_def posix_text_def path_parts_def path_root_def)

lemma str_my_conf: "str (Path ''my.conf'') = ''my.conf''"
  by (simp add: str_def posix_text_def path_parts_def path_root_def)

lemma str_dot_slash: "str (Path ''./my.conf'') = ''my.conf''"
  by (simp add: str_def posix_text_def path_parts_def path_root_def)

lemma str_empty: "str (Path []) = ''.''"
  by (simp add: str_def posix_text_def path_parts_def path_root_def)

lemma str_slashes: "str (Path ''//a//b/'') = ''//a/b''"
  by (simp add: str_def posix_text_def path_parts_def path_root_def)

lemma as_posix_str: "as_posix p = str p"
  by (simp add: as_posix_def str_def)

lemma logger_call_final:
  "final_state (logger_call emit_error name lvl msg args exc st) =
     st\<lparr>logging := log_via name lvl msg args exc (logging st)\<rparr>"
  by (simp add: logger_call_def Let_def split: option.splits)

lemma logger_call_raised:
  "raised (logger_call emit_error name lvl msg args exc st) = emit_error name lvl st"
  by (simp add: logger_call_def Let_def split: option.splits)

lemma logger_call_returns:
  "logger_call emit_error name lvl msg args exc st = Returns s' \<longleftrightarrow>
     emit_error name lvl st = None \<and>
     s' = st\<lparr>logging := log_via name lvl msg args exc (logging st)\<rparr>"
  by (auto simp add: logger_call_def Let_def split: option.splits)

lemma logger_call_raises:
  "logger_call emit_error name lvl msg args exc st = Raises e s' \<longleftrightarrow>
     emit_error name lvl st = Some e \<and>
     s' = st\<lparr>logging := log_via name lvl msg args exc (logging st)\<rparr>"
  by (auto simp add: logger_call_def Let_def split: option.splits)

lemma default_configuration_ready:
  assumes "log_sink_ready (fs st)"
  shows "default_configuration emit_error st =
     logger_call emit_error logger_module logging_DEBUG
       ''Logging configured with basicConfig + RotatingFileHandler (no config file found)''
       [] None (installed_by_default st)"
proof -
  let ?st2 = "st\<lparr>logging := (logging st)\<lparr>root :=
      \<lparr>lg_level = fallback_level st, lg_handlers = [console_handler]\<rparr>\<rparr>\<rparr>"
  have ready: "log_sink_ready (fs ?st2)" using assms by simp
  show ?thesis
    unfolding default_configuration_def select_log_level_eq
    using mkdir_logs_ready [OF ready] open_log_ready [OF ready]
    by (simp add: basicConfig_force line_format_eq file_handler_eq Let_def
        installed_by_default_def addHandler_def)
qed

lemma default_configuration_ready_final:
  assumes "log_sink_ready (fs st)"
  shows "final_state (default_configuration emit_error st) = configured_by_default st"
  using assms
  by (simp add: default_configuration_ready logger_call_final configured_by_default_def)

lemma default_configuration_ready_raised:
  assumes "log_sink_ready (fs st)"
  shows "raised (default_configuration emit_error st) =
     emit_error logger_module logging_DEBUG (installed_by_default st)"
  using assms by (simp add: default_configuration_ready logger_call_raised)

lemma default_configuration_not_ready:
  assumes "\<not> log_sink_ready (fs st)"
  shows "raised (default_configuration emit_error st) \<noteq> None \<and>
         root (logging (final_state (default_configuration emit_error st))) =
           \<lparr>lg_level = fallback_level st, lg_handlers = [console_handler]\<rparr> \<and>
         calls (logging (final_state (default_configuration emit_error st))) =
           calls (logging st)"
proof -
  let ?st2 = "st\<lparr>logging := (logging st)\<lparr>root :=
      \<lparr>lg_level = fallback_level st, lg_handlers = [console_handler]\<rparr>\<rparr>\<rparr>"
  have nr: "\<not> log_sink_ready (fs ?st2)" using assms by simp
  show ?thesis
  proof (cases "mkdir (Path ''logs'') ?st2")
    case (Raises e st3)
    moreover have "logging st3 = logging ?st2"
      using mkdir_logging [of "Path ''logs''" ?st2] Raises by simp
    ultimately show ?thesis
      by (simp add: default_configuration_def select_log_level_eq basicConfig_force Let_def)
  next
    case (Returns st3)
    have l3: "logging st3 = logging ?st2"
      using mkdir_logging [of "Path ''logs''" ?st2] Returns by simp
    show ?thesis
    proof (cases "open_append (Path ''logs/app.log'') st3")
      case (Raises e st4)
      moreover have "logging st4 = logging st3"
        using open_append_logging [of "Path ''logs/app.log''" st3] Raises by simp
      ultimately show ?thesis
        using Returns l3
        by (simp add: default_configuration_def select_log_level_eq basicConfig_force Let_def)
    next
      case r4: (Returns st4)
      from mkdir_not_ready [OF Returns r4] nr show ?thesis by simp
    qed
  qed
qed

lemma root_installed:
  "root (logging (installed_by_default st)) =
     \<lparr>lg_level = fallback_level st,
      lg_handlers = [console_handler, rotating_file_handler (fallback_level st)]\<rparr>"
  by (simp add: installed_by_default_def)

lemma root_configured:
  "root (logging (configured_by_default st)) =
     \<lparr>lg_level = fallback_level st,
      lg_handlers = [console_handler, rotating_file_handler (fallback_level st)]\<rparr>"
  by (simp add: configured_by_default_def log_via_root root_installed)

lemma root_handlers_configured:
  "root_handlers (configured_by_default st) =
     [console_handler, rotating_file_handler (fallback_level st)]"
  by (simp add: root_handlers_def root_configured)

lemma node_configured:
  "node (fs (configured_by_default st)) =
     (node (fs st))(Path ''logs'' := Directory, Path ''logs/app.log'' := RegularFile)"
  by (simp add: configured_by_default_def installed_by_default_def)

lemma fs_configured: "fs (configured_by_default st) = fs (installed_by_default st)"
  by (simp add: configured_by_default_def)

lemma environ_configured: "environ (configured_by_default st) = environ st"
  by (simp add: configured_by_default_def installed_by_default_def)

lemma encodable_configured: "encodable (configured_by_default st) = encodable st"
  by (simp add: configured_by_default_def installed_by_default_def)

lemma calls_configured:
  "calls (logging (configured_by_default st)) = calls (logging st) @
     [\<lparr>lc_logger = fst (logging_getLogger logger_module (logging (installed_by_default st))),
       lc_level = logging_DEBUG,
       lc_msg = ''Logging configured with basicConfig + RotatingFileHandler (no config file found)'',
       lc_args = [], lc_exc_info = None\<rparr>]"
  by (simp add: configured_by_default_def log_via_calls installed_by_default_def)

lemma default_configuration_root_level:
  "lg_level (root (logging (final_state (default_configuration emit_error st))))
     = fallback_level st"
proof (cases "log_sink_ready (fs st)")
  case True
  then show ?thesis by (simp add: default_configuration_ready_final root_configured)
next
  case False
  then show ?thesis by (simp add: default_configuration_not_ready)
qed

lemma default_configuration_returns:
  assumes "default_configuration emit_error st = Returns s'"
  shows "log_sink_ready (fs st) \<and> s' = configured_by_default st \<and>
         emit_error logger_module logging_DEBUG (installed_by_default st) = None"
proof (cases "log_sink_ready (fs st)")
  case True
  from default_configuration_ready_final [OF True, of emit_error]
    default_configuration_ready_raised [OF True, of emit_error] assms True
  show ?thesis by simp
next
  case False
  from default_configuration_not_ready [OF False, of emit_error] assms show ?thesis by simp
qed

lemma default_configuration_keeps_calls:
  "set (calls (logging st)) \<subseteq>
     set (calls (logging (final_state (default_configuration emit_error st))))"
proof (cases "log_sink_ready (fs st)")
  case True
  then show ?thesis
    by (auto simp add: default_configuration_ready_final calls_configured)
next
  case False
  then show ?thesis by (simp add: default_configuration_not_ready)
qed

lemma setup_logging_fallback:
  assumes "fallback_entry fileConfig emit_error config_path env_var st = Some s"
  shows "setup_logging fileConfig emit_error config_path env_var st
           = default_configuration emit_error s"
  using assms
  by (auto simp add: fallback_entry_def setup_logging_def
      split: if_splits prod.splits option.splits outcome.splits)

lemma fallback_entry_unresolved:
  assumes "encodable st env_var"
    and "fst (resolve_logging_config_path config_path env_var st) = None"
  shows "fallback_entry fileConfig emit_error config_path env_var st = Some st"
  using assms by (simp add: fallback_entry_def resolve_find)

lemma setup_logging_unencodable:
  assumes "\<not> encodable st env_var"
  shows "setup_logging fileConfig emit_error config_path env_var st
           = Raises UnicodeEncodeError st"
    and "fallback_entry fileConfig emit_error config_path env_var st = None"
  using assms by (simp_all add: setup_logging_def fallback_entry_def)

lemma setup_logging_loaded:
  assumes "encodable st env_var"
    and "fst (resolve_logging_config_path config_path env_var st) = Some p"
    and "try_load fileConfig emit_error p st = Returns st2"
  shows "setup_logging fileConfig emit_error config_path env_var st = Returns st2"
    and "fallback_entry fileConfig emit_error config_path env_var st = None"
  using assms by (simp_all add: setup_logging_def fallback_entry_def resolve_find)

lemma setup_logging_report_raises:
  assumes "encodable st env_var"
    and "fst (resolve_logging_config_path config_path env_var st) = Some p"
    and "try_load fileConfig emit_error p st = Raises e st2"
    and "emit_error logger_module logging_ERROR st2 = Some e'"
  shows "setup_logging fileConfig emit_error config_path env_var st =
       Raises e' (st2\<lparr>logging := log_via logger_module logging_ERROR
          ''Failed to configure logging from %s. Falling back to basicConfig.''
          [str p] (Some e) (logging st2)\<rparr>)"
    and "fallback_entry fileConfig emit_error config_path env_var st = None"
  using assms
  by (simp_all add: setup_logging_def fallback_entry_def resolve_find logger_call_def)

lemma fallback_entry_failed:
  assumes "encodable st env_var"
    and "fst (resolve_logging_config_path config_path env_var st) = Some p"
    and "try_load fileConfig emit_error p st = Raises e st2"
    and "emit_error logger_module logging_ERROR st2 = None"
  shows "fallback_entry fileConfig emit_error config_path env_var st =
     Some (st2\<lparr>logging := log_via logger_module logging_ERROR
        ''Failed to configure logging from %s. Falling back to basicConfig.''
        [str p] (Some e) (logging st2)\<rparr>)"
  using assms by (simp add: fallback_entry_def resolve_find logger_call_def)

lemma try_load_failed:
  assumes "fileConfig (str p) False st = Raises e st2"
  shows "try_load fileConfig emit_error p st = Raises e st2"
  using assms by (simp add: try_load_def)

lemma try_load_loaded:
  assumes "fileConfig (str p) False st = Returns st2"
  shows "try_load fileConfig emit_error p st =
     logger_call emit_error logger_module logging_DEBUG
       ''Logging configured from file: %s'' [as_posix p] None st2"
  using assms by (simp add: try_load_def)

lemma encodable_fresh: "encodable fresh_state name"
  by (simp add: fresh_state_def)

lemma encodable_with_node: "encodable (with_node p n st) = encodable st"
  by (simp add: with_node_def)

lemma encodable_with_env: "encodable (with_env k v st) = encodable st"
  by (simp add: with_env_def)

lemma own_calls_return_quiet: "own_calls_return quiet"
  by (simp add: own_calls_return_def quiet_def)

lemma fresh_unresolved:
  "fst (resolve_logging_config_path None ''LOG_CFG'' fresh_state) = None"
  by (simp add: resolve_find spec_candidate_list_def exists_as_regular_file_def
      fresh_state_def fresh_fs_def)

lemma fresh_ready: "log_sink_ready (fs fresh_state)"
  by (simp add: log_sink_ready_def fresh_state_def fresh_fs_def)

lemma fresh_level: "fallback_level fresh_state = 20"
  by (simp add: fallback_level_def fresh_state_def)

lemma fresh_entry:
  "fallback_entry fileConfig emit_error None ''LOG_CFG'' fresh_state = Some fresh_state"
  by (rule fallback_entry_unresolved [OF encodable_fresh fresh_unresolved])

lemma fresh_setup:
  "setup_logging fileConfig quiet None ''LOG_CFG'' fresh_state
     = Returns (configured_by_default fresh_state)"
  using setup_logging_fallback [OF fresh_entry, of fileConfig quiet]
  by (simp add: default_configuration_ready fresh_ready logger_call_def quiet_def
      configured_by_default_def)

lemma logs_is_a_file_unresolved:
  "fst (resolve_logging_config_path None ''LOG_CFG'' logs_is_a_file) = None"
  by (simp add: resolve_find spec_candidate_list_def exists_as_regular_file_def
      logs_is_a_file_def with_node_def fresh_state_def fresh_fs_def)

lemma logs_is_a_file_encodable: "encodable logs_is_a_file name"
  by (simp add: logs_is_a_file_def encodable_with_node encodable_fresh)

lemma logs_is_a_file_not_ready: "\<not> log_sink_ready (fs logs_is_a_file)"
  by (simp add: log_sink_ready_def logs_is_a_file_def with_node_def)

lemma logs_is_a_file_raises:
  "default_configuration emit_error logs_is_a_file =
     Raises FileExistsError (logs_is_a_file\<lparr>logging := (logging logs_is_a_file)\<lparr>root :=
        \<lparr>lg_level = fallback_level logs_is_a_file, lg_handlers = [console_handler]\<rparr>\<rparr>\<rparr>)"
proof -
  let ?st2 = "logs_is_a_file\<lparr>logging := (logging logs_is_a_file)\<lparr>root :=
      \<lparr>lg_level = fallback_level logs_is_a_file, lg_handlers = [console_handler]\<rparr>\<rparr>\<rparr>"
  have "node (fs ?st2) (Path ''logs'') = RegularFile"
    by (simp add: logs_is_a_file_def with_node_def)
  then have "mkdir (Path ''logs'') ?st2 = Raises FileExistsError ?st2"
    by (simp add: mkdir_def)
  then show ?thesis
    by (simp add: default_configuration_def select_log_level_eq basicConfig_force Let_def)
qed

lemma logs_is_a_file_setup:
  "setup_logging fileConfig emit_error None ''LOG_CFG'' logs_is_a_file =
     Raises FileExistsError (logs_is_a_file\<lparr>logging := (logging logs_is_a_file)\<lparr>root :=
        \<lparr>lg_level = fallback_level logs_is_a_file, lg_handlers = [console_handler]\<rparr>\<rparr>\<rparr>)"
  using setup_logging_fallback
    [OF fallback_entry_unresolved [OF logs_is_a_file_encodable logs_is_a_file_unresolved],
     of fileConfig emit_error]
  by (simp add: logs_is_a_file_raises)

lemma default_config_resolved:
  "fst (resolve_logging_config_path None ''LOG_CFG'' default_config_only)
     = Some (Path ''config/logging.conf'')"
  by (simp add: resolve_find spec_candidate_list_def exists_as_regular_file_def
      default_config_only_def with_node_def fresh_state_def)

lemma default_config_encodable: "encodable default_config_only name"
  by (simp add: default_config_only_def encodable_with_node encodable_fresh)

lemma default_config_ready: "log_sink_ready (fs default_config_only)"
  by (simp add: log_sink_ready_def default_config_only_def with_node_def fresh_state_def
      fresh_fs_def)

lemma default_config_rejected:
  "try_load rejecting_loader emit_error (Path ''config/logging.conf'') default_config_only
     = Raises (ConfigError ''config/logging.conf'') default_config_only"
  by (simp add: try_load_def rejecting_loader_def str_default)

lemma rejected_entry:
  "fallback_entry rejecting_loader quiet None ''LOG_CFG'' default_config_only = Some reported"
  using fallback_entry_failed
    [where emit_error = quiet and env_var = "''LOG_CFG''",
     OF default_config_encodable default_config_resolved default_config_rejected]
  by (simp add: quiet_def str_default reported_def)

lemma reported_ready: "log_sink_ready (fs reported)"
  using default_config_ready by (simp add: reported_def)

lemma rejected_setup:
  "setup_logging rejecting_loader quiet None ''LOG_CFG'' default_config_only
     = Returns (configured_by_default reported)"
  using setup_logging_fallback [OF rejected_entry]
  by (simp add: default_configuration_ready reported_ready logger_call_def quiet_def
      configured_by_default_def)

lemma rejected_broken_setup:
  "setup_logging rejecting_loader broken_handlers None ''LOG_CFG'' default_config_only
     = Raises FileNotFoundError reported"
  using setup_logging_report_raises (1)
    [where emit_error = broken_handlers and env_var = "''LOG_CFG''" and e' = FileNotFoundError,
     OF default_config_encodable default_config_resolved default_config_rejected]
  by (simp add: broken_handlers_def str_default reported_def)

lemma crowded_unresolved:
  "fst (resolve_logging_config_path None ''LOG_CFG'' crowded_state) = None"
  by (simp add: resolve_find spec_candidate_list_def exists_as_regular_file_def
      crowded_state_def fresh_state_def fresh_fs_def)

lemma crowded_encodable: "encodable crowded_state name"
  by (simp add: crowded_state_def fresh_state_def)

lemma crowded_ready: "log_sink_ready (fs crowded_state)"
  by (simp add: log_sink_ready_def crowded_state_def fresh_state_def fresh_fs_def)

lemma crowded_level: "fallback_level crowded_state = 20"
  by (simp add: fallback_level_def crowded_state_def fresh_state_def)

lemma fallback_returns_handlers:
  assumes "fallback_entry fileConfig emit_error config_path env_var st = Some s"
    and "setup_logging fileConfig emit_error config_path env_var st = Returns s'"
  shows "root_handlers s' = [console_handler, rotating_file_handler (fallback_level s)]"
proof -
  have "default_configuration emit_error s = Returns s'"
    using assms by (simp add: setup_logging_fallback)
  then have "s' = configured_by_default s"
    by (simp add: default_configuration_returns)
  then show ?thesis by (simp add: root_handlers_configured)
qed

lemma default_configuration_quiet:
  assumes "log_sink_ready (fs st)"
  shows "default_configuration quiet st = Returns (configured_by_default st)"
  using assms
  by (simp add: default_configuration_ready logger_call_def quiet_def
      configured_by_default_def)

lemma configured_unresolved:
  "fst (resolve_logging_config_path None ''LOG_CFG'' (configured_by_default fresh_state)) = None"
proof -
  have env: "environ (configured_by_default fresh_state) ''LOG_CFG'' = None"
    by (simp add: environ_configured fresh_state_def)
  have "\<not> exists_as_regular_file (configured_by_default fresh_state)
      (Path ''config/logging.conf'')"
    by (simp add: exists_as_regular_file_def node_configured fresh_state_def fresh_fs_def)
  then show ?thesis
    by (simp add: resolve_find spec_candidate_list_def env)
qed

lemma configured_encodable: "encodable (configured_by_default fresh_state) name"
  by (simp add: encodable_configured encodable_fresh)

lemma configured_ready: "log_sink_ready (fs (configured_by_default fresh_state))"
  by (simp add: log_sink_ready_def node_configured)
     (simp add: configured_by_default_def installed_by_default_def fresh_state_def fresh_fs_def)

lemma second_setup:
  "setup_logging fileConfig quiet None ''LOG_CFG'' (configured_by_default fresh_state)
     = Returns (configured_by_default (configured_by_default fresh_state))"
  using setup_logging_fallback
    [OF fallback_entry_unresolved [OF configured_encodable configured_unresolved],
     of fileConfig quiet]
  by (simp add: default_configuration_quiet configured_ready)

lemma my_conf_resolved:
  "fst (resolve_logging_config_path (Some (StrArg ''my.conf'')) ''LOG_CFG'' three_configs)
     = Some (Path ''my.conf'')"
  by (simp add: resolve_find spec_candidate_list_def exists_as_regular_file_def
      three_configs_def with_node_def with_env_def fresh_state_def)

lemma three_configs_encodable: "encodable three_configs name"
  by (simp add: three_configs_def encodable_with_node encodable_with_env encodable_fresh)

lemma three_configs_ready: "log_sink_ready (fs three_configs)"
  by (simp add: log_sink_ready_def three_configs_def with_node_def with_env_def
      fresh_state_def fresh_fs_def)

lemma three_configs_level: "fallback_level three_configs = 20"
  by (simp add: fallback_level_def three_configs_def with_node_def with_env_def
      fresh_state_def)

section \<open>The claims\<close>

text \<open>
  C1. For every override path, environment and filesystem,
  \<^verbatim>\<open>_resolve_logging_config_path\<close> returns the first path that exists as a regular
  file in the ordered candidate list: the override path if given, the value of the
  environment variable if set, the default path \<^verbatim>\<open>config/logging.conf\<close>. In
  particular an override path that is given and exists as a regular file is returned,
  whatever the environment variable and the default file are. An empty string is not
  put on the list; as \<^verbatim>\<open>Path("")\<close> is not a regular file, the result is the same
  when it is counted as given.
\<close>

theorem resolve_first_existing_candidate:
  "fst (resolve_logging_config_path override_path env_var st) =
     find (exists_as_regular_file st)
       (spec_candidate_list override_path (environ st env_var))
   \<and> (\<forall>a. override_path = Some a \<and> truthy override_path \<and>
          exists_as_regular_file st (to_path a) \<longrightarrow>
        fst (resolve_logging_config_path override_path env_var st) = Some (to_path a))
   \<and> (\<not> exists_as_regular_file st (Path []) \<longrightarrow>
        fst (resolve_logging_config_path override_path env_var st) =
          find (exists_as_regular_file st)
            (literal_candidate_list override_path (environ st env_var)) \<and>
        (\<forall>a. override_path = Some a \<and> exists_as_regular_file st (to_path a) \<longrightarrow>
          fst (resolve_logging_config_path override_path env_var st) = Some (to_path a)))"
proof (intro conjI allI impI)
  show "fst (resolve_logging_config_path override_path env_var st) =
     find (exists_as_regular_file st)
       (spec_candidate_list override_path (environ st env_var))"
    by (simp add: resolve_find)
next
  fix a
  assume "override_path = Some a \<and> truthy override_path \<and>
          exists_as_regular_file st (to_path a)"
  then show "fst (resolve_logging_config_path override_path env_var st) = Some (to_path a)"
    by (auto simp add: resolve_find spec_candidate_list_def split: path_arg.splits)
next
  assume "\<not> exists_as_regular_file st (Path [])"
  then show "fst (resolve_logging_config_path override_path env_var st) =
          find (exists_as_regular_file st)
            (literal_candidate_list override_path (environ st env_var))"
    by (simp add: resolve_find find_literal_candidates)
next
  fix a
  assume "\<not> exists_as_regular_file st (Path [])"
    and "override_path = Some a \<and> exists_as_regular_file st (to_path a)"
  then show "fst (resolve_logging_config_path override_path env_var st) = Some (to_path a)"
    by (auto simp add: resolve_find spec_candidate_list_def split: path_arg.splits)
qed

theorem resolve_first_existing_candidate_witness:
  "fst (resolve_logging_config_path (Some (StrArg ''my.conf'')) ''LOG_CFG'' three_configs)
     = Some (Path ''my.conf'')
   \<and> fst (resolve_logging_config_path None ''LOG_CFG'' three_configs) = Some (Path ''env.conf'')
   \<and> fst (resolve_logging_config_path (Some (StrArg [])) ''LOG_CFG'' default_config_only)
     = find (exists_as_regular_file default_config_only)
         [Path [], Path ''config/logging.conf'']"
proof -
  have first: "exists_as_regular_file three_configs (Path ''my.conf'')"
    by (simp add: three_configs_def with_node_def exists_as_regular_file_def)
  have env: "environ three_configs ''LOG_CFG'' = Some ''env.conf''"
    by (simp add: three_configs_def with_node_def with_env_def)
  have second: "exists_as_regular_file three_configs (Path ''env.conf'')"
    by (simp add: three_configs_def with_node_def exists_as_regular_file_def)
  have no_dot: "\<not> exists_as_regular_file default_config_only (Path [])"
    by (simp add: default_config_only_def with_node_def exists_as_regular_file_def
        fresh_state_def fresh_fs_def)
  have env0: "environ default_config_only ''LOG_CFG'' = None"
    by (simp add: default_config_only_def with_node_def fresh_state_def)
  note t1 = resolve_first_existing_candidate
    [of "Some (StrArg ''my.conf'')" "''LOG_CFG''" three_configs]
  note t2 = resolve_first_existing_candidate [of None "''LOG_CFG''" three_configs]
  note t3 = resolve_first_existing_candidate
    [of "Some (StrArg [])" "''LOG_CFG''" default_config_only]
  have a: "fst (resolve_logging_config_path (Some (StrArg ''my.conf'')) ''LOG_CFG''
      three_configs) = Some (Path ''my.conf'')"
    using t1 [THEN conjunct2, THEN conjunct1] first by simp
  have b: "fst (resolve_logging_config_path None ''LOG_CFG'' three_configs)
      = Some (Path ''env.conf'')"
    using t2 [THEN conjunct1] env second by (simp add: spec_candidate_list_def)
  have c: "fst (resolve_logging_config_path (Some (StrArg [])) ''LOG_CFG'' default_config_only)
     = find (exists_as_regular_file default_config_only)
         [Path [], Path ''config/logging.conf'']"
    using t3 [THEN conjunct2, THEN conjunct2] no_dot env0
    by (simp add: literal_candidate_list_def)
  show ?thesis using a b c by blast
qed

text \<open>
  C8. An error raised while a candidate is probed is swallowed and the candidate counts
  as absent; the function returns \<open>None\<close> when no candidate exists as a regular file;
  and it leaves the state (logging, environment, filesystem) as it found it.
\<close>

theorem resolve_swallows_probe_errors:
  "snd (resolve_logging_config_path override_path env_var st) = st
   \<and> (fst (resolve_logging_config_path override_path env_var st) = None \<longleftrightarrow>
        (\<forall>c \<in> set (fst (candidate_paths override_path env_var st)).
            \<not> exists_as_regular_file st c))
   \<and> (node (fs st) c = Inaccessible \<longrightarrow>
        is_file c st = (Inl PermissionError, st) \<and>
        probe_candidates (c # rest) st = probe_candidates rest st)"
proof (intro conjI impI)
  show "snd (resolve_logging_config_path override_path env_var st) = st"
    by (simp add: resolve_find)
  show "fst (resolve_logging_config_path override_path env_var st) = None \<longleftrightarrow>
        (\<forall>c \<in> set (fst (candidate_paths override_path env_var st)).
            \<not> exists_as_regular_file st c)"
    by (auto simp add: resolve_find candidate_paths_spec find_None_iff)
next
  assume "node (fs st) c = Inaccessible"
  then show "is_file c st = (Inl PermissionError, st)"
    by (simp add: is_file_def)
  then show "probe_candidates (c # rest) st = probe_candidates rest st"
    by simp
qed

theorem resolve_swallows_probe_errors_witness:
  "resolve_logging_config_path (Some (StrArg ''secret.conf'')) ''LOG_CFG'' unreadable_override
     = (Some (Path ''config/logging.conf''), unreadable_override)
   \<and> is_file (Path ''secret.conf'') unreadable_override
        = (Inl PermissionError, unreadable_override)
   \<and> resolve_logging_config_path None ''LOG_CFG'' fresh_state = (None, fresh_state)"
proof -
  have inacc: "node (fs unreadable_override) (Path ''secret.conf'') = Inaccessible"
    by (simp add: unreadable_override_def with_node_def)
  have dflt: "exists_as_regular_file unreadable_override (Path ''config/logging.conf'')"
    by (simp add: unreadable_override_def default_config_only_def with_node_def
        exists_as_regular_file_def)
  have env: "environ unreadable_override ''LOG_CFG'' = None"
    by (simp add: unreadable_override_def default_config_only_def with_node_def
        fresh_state_def)
  have c1: "candidate_paths (Some (StrArg ''secret.conf'')) ''LOG_CFG'' unreadable_override
      = ([Path ''secret.conf'', Path ''config/logging.conf''], unreadable_override)"
    by (simp add: candidate_paths_spec spec_candidate_list_def env)
  have p1: "probe_candidates [Path ''config/logging.conf''] unreadable_override
      = (Some (Path ''config/logging.conf''), unreadable_override)"
    using dflt by (simp add: probe_candidates_find)
  have none: "\<forall>c \<in> set (fst (candidate_paths None ''LOG_CFG'' fresh_state)).
      \<not> exists_as_regular_file fresh_state c"
    by (simp add: candidate_paths_spec spec_candidate_list_def exists_as_regular_file_def
        fresh_state_def fresh_fs_def)
  note a = resolve_swallows_probe_errors
    [of "Some (StrArg ''secret.conf'')" "''LOG_CFG''" unreadable_override
        "Path ''secret.conf''" "[Path ''config/logging.conf'']"]
  note b = resolve_swallows_probe_errors [of None "''LOG_CFG''" fresh_state]
  have skip: "probe_candidates [Path ''secret.conf'', Path ''config/logging.conf'']
      unreadable_override = probe_candidates [Path ''config/logging.conf''] unreadable_override"
    using a inacc by blast
  have r1: "resolve_logging_config_path (Some (StrArg ''secret.conf'')) ''LOG_CFG''
      unreadable_override = (Some (Path ''config/logging.conf''), unreadable_override)"
    by (simp add: resolve_logging_config_path_def c1 skip p1 del: probe_candidates.simps)
  have r2: "resolve_logging_config_path None ''LOG_CFG'' fresh_state = (None, fresh_state)"
    using b none by (simp add: prod_eq_iff)
  show ?thesis using a inacc r1 r2 by simp
qed

text \<open>
  C10. An empty-string override path and an environment variable set to the empty
  string are treated like absent ones: the empty string is never added to the candidate
  list. So \<^verbatim>\<open>_resolve_logging_config_path("")\<close> with the variable unset returns the
  default path if it exists and \<open>None\<close> otherwise, and the empty path is not probed.
\<close>

theorem resolve_empty_is_absent:
  "candidate_paths (Some (StrArg [])) env_var st = candidate_paths None env_var st
   \<and> resolve_logging_config_path (Some (StrArg [])) env_var st
       = resolve_logging_config_path None env_var st
   \<and> (environ st env_var = Some [] \<longrightarrow>
        fst (candidate_paths override_path env_var st)
          = fst (candidate_paths override_path env_var
                  (st\<lparr>environ := (environ st)(env_var := None)\<rparr>)) \<and>
        fst (resolve_logging_config_path override_path env_var st)
          = fst (resolve_logging_config_path override_path env_var
                  (st\<lparr>environ := (environ st)(env_var := None)\<rparr>)))
   \<and> (environ st env_var = None \<longrightarrow>
        fst (candidate_paths (Some (StrArg [])) env_var st) = [Path ''config/logging.conf''] \<and>
        fst (resolve_logging_config_path (Some (StrArg [])) env_var st)
          = (if exists_as_regular_file st (Path ''config/logging.conf'')
             then Some (Path ''config/logging.conf'') else None))
   \<and> Path [] \<notin> set (fst (candidate_paths (Some (StrArg [])) env_var st))"
  by (auto simp add: resolve_find candidate_paths_spec spec_candidate_list_def
      exists_as_regular_file_environ split: option.splits)

theorem resolve_empty_is_absent_witness:
  "fst (resolve_logging_config_path (Some (StrArg [])) ''LOG_CFG'' default_config_only)
     = Some (Path ''config/logging.conf'')
   \<and> fst (candidate_paths (Some (StrArg [])) ''LOG_CFG'' default_config_only)
     = [Path ''config/logging.conf'']
   \<and> fst (candidate_paths None ''LOG_CFG'' empty_log_cfg) = [Path ''config/logging.conf'']"
proof -
  have env: "environ default_config_only ''LOG_CFG'' = None"
    by (simp add: default_config_only_def with_node_def fresh_state_def)
  have env2: "environ empty_log_cfg ''LOG_CFG'' = Some []"
    by (simp add: empty_log_cfg_def with_env_def)
  have dflt: "exists_as_regular_file default_config_only (Path ''config/logging.conf'')"
    by (simp add: default_config_only_def with_node_def exists_as_regular_file_def)
  have unset: "fst (candidate_paths None ''LOG_CFG''
      (empty_log_cfg\<lparr>environ := (environ empty_log_cfg)(''LOG_CFG'' := None)\<rparr>))
      = [Path ''config/logging.conf'']"
    by (simp add: candidate_paths_spec spec_candidate_list_def)
  note a = resolve_empty_is_absent [of "''LOG_CFG''" default_config_only None]
  note b = resolve_empty_is_absent [of "''LOG_CFG''" empty_log_cfg None]
  note a4 = a [THEN conjunct2, THEN conjunct2, THEN conjunct2, THEN conjunct1, rule_format, OF env]
  note b3 = b [THEN conjunct2, THEN conjunct2, THEN conjunct1, rule_format, OF env2]
  have r1: "fst (resolve_logging_config_path (Some (StrArg [])) ''LOG_CFG'' default_config_only)
     = Some (Path ''config/logging.conf'')"
    using a4 dflt by simp
  have r2: "fst (candidate_paths (Some (StrArg [])) ''LOG_CFG'' default_config_only)
     = [Path ''config/logging.conf'']"
    using a4 by simp
  have r3: "fst (candidate_paths None ''LOG_CFG'' empty_log_cfg) = [Path ''config/logging.conf'']"
    using b3 unset by simp
  show ?thesis using r1 r2 r3 by blast
qed

text \<open>
  C9. \<^verbatim>\<open>get_logger\<close> has no failure: it returns a handle for every name. An absent or
  empty name stands for the fixed name \<^verbatim>\<open>predictive_maintenance_system\<close>. Two calls
  with the same name return the same handle, the second call changes nothing, and a
  level set through the first handle is the level read through the second.
\<close>

theorem get_logger_named_singleton:
  "get_logger None lg = logging_getLogger ''predictive_maintenance_system'' lg
   \<and> get_logger (Some []) lg = logging_getLogger ''predictive_maintenance_system'' lg
   \<and> (name \<noteq> [] \<longrightarrow> get_logger (Some name) lg = logging_getLogger name lg)
   \<and> (\<forall>h1 lg1 h2 lg2.
         get_logger n lg = (h1, lg1) \<and> get_logger n lg1 = (h2, lg2) \<longrightarrow>
         h2 = h1 \<and> lg2 = lg1 \<and> level_of h2 (setLevel h1 lvl lg2) = lvl)"
proof (intro conjI allI impI)
  show "get_logger None lg = logging_getLogger ''predictive_maintenance_system'' lg"
    by (simp add: get_logger_def DEFAULT_LOGGER_NAME_def)
  show "get_logger (Some []) lg = logging_getLogger ''predictive_maintenance_system'' lg"
    by (simp add: get_logger_def DEFAULT_LOGGER_NAME_def)
next
  assume "name \<noteq> []"
  then show "get_logger (Some name) lg = logging_getLogger name lg"
    by (simp add: get_logger_def)
next
  fix h1 lg1 h2 lg2
  assume two: "get_logger n lg = (h1, lg1) \<and> get_logger n lg1 = (h2, lg2)"
  then have again: "get_logger n lg1 = (h1, lg1)"
    unfolding get_logger_def by (blast intro: getLogger_again)
  with two show "h2 = h1" by simp
  from two again show "lg2 = lg1" by simp
  from two again show "level_of h2 (setLevel h1 lvl lg2) = lvl"
    by (simp add: level_of_setLevel)
qed

theorem get_logger_named_singleton_witness:
  "get_logger (Some ''m'') fresh_logging = (Ref 0, snd (get_logger (Some ''m'') fresh_logging))
   \<and> get_logger (Some ''m'') (snd (get_logger (Some ''m'') fresh_logging))
       = (Ref 0, snd (get_logger (Some ''m'') fresh_logging))
   \<and> level_of (fst (get_logger (Some ''m'') (snd (get_logger (Some ''m'') fresh_logging))))
        (setLevel (fst (get_logger (Some ''m'') fresh_logging)) 10
           (snd (get_logger (Some ''m'') (snd (get_logger (Some ''m'') fresh_logging))))) = 10
   \<and> loggerDict (snd (get_logger None fresh_logging)) ''predictive_maintenance_system''
       = Some 0"
proof -
  obtain lg1 where first: "get_logger (Some ''m'') fresh_logging = (Ref 0, lg1)"
    by (simp add: get_logger_def logging_getLogger_def fresh_logging_def)
  obtain h2 lg2 where second: "get_logger (Some ''m'') lg1 = (h2, lg2)"
    by (cases "get_logger (Some ''m'') lg1") blast
  note t = get_logger_named_singleton [of fresh_logging "''m''" "Some ''m''" 10]
  from t first second
  have same: "h2 = Ref 0 \<and> lg2 = lg1 \<and> level_of h2 (setLevel (Ref 0) 10 lg2) = 10"
    by blast
  have dflt: "loggerDict (snd (get_logger None fresh_logging))
      ''predictive_maintenance_system'' = Some 0"
    using t by (simp add: logging_getLogger_def fresh_logging_def)
  show ?thesis
    using first second same dflt by simp
qed

text \<open>
  C2. (As amended.) Provided the variable's name can be encoded and the module's own
  logging calls (lines 96, 101 and 130) do not raise, \<^verbatim>\<open>setup_logging\<close> raises to
  its caller exactly when it takes the fallback path and the log directory cannot be
  created or the log file cannot be opened; under that proviso a missing or malformed
  configuration file does not make it raise. Whenever it returns, the file
  configuration was loaded, or the root logger carries the console handler and the
  rotating file handler.
\<close>

theorem setup_logging_raises_only_without_log_sink:
  "(encodable st env_var \<and> own_calls_return emit_error \<longrightarrow>
      (raised (setup_logging fileConfig emit_error config_path env_var st) \<noteq> None \<longleftrightarrow>
         (\<exists>s. fallback_entry fileConfig emit_error config_path env_var st = Some s \<and>
              \<not> log_sink_ready (fs s))))
   \<and> (\<forall>s'. setup_logging fileConfig emit_error config_path env_var st = Returns s' \<longrightarrow>
         (\<exists>p. fst (resolve_logging_config_path config_path env_var st) = Some p \<and>
              try_load fileConfig emit_error p st = Returns s') \<or>
         map h_kind (root_handlers s') =
           [StreamHandler, RotatingFileHandler (Path ''logs/app.log'') 5000000 5 ''utf-8''])"
proof (intro conjI impI allI)
  assume pro: "encodable st env_var \<and> own_calls_return emit_error"
  then have enc: "encodable st env_var"
    and own: "\<And>lvl s. emit_error logger_module lvl s = None"
    by (simp_all add: own_calls_return_def)
  show "raised (setup_logging fileConfig emit_error config_path env_var st) \<noteq> None \<longleftrightarrow>
         (\<exists>s. fallback_entry fileConfig emit_error config_path env_var st = Some s \<and>
              \<not> log_sink_ready (fs s))"
  proof (cases "fallback_entry fileConfig emit_error config_path env_var st")
    case None
    then have "raised (setup_logging fileConfig emit_error config_path env_var st) = None"
      using enc own
      by (auto simp add: fallback_entry_def setup_logging_def logger_call_def resolve_find
          split: option.splits outcome.splits)
    with None show ?thesis by simp
  next
    case (Some s)
    then have eq: "setup_logging fileConfig emit_error config_path env_var st
        = default_configuration emit_error s"
      by (rule setup_logging_fallback)
    show ?thesis
    proof (cases "log_sink_ready (fs s)")
      case True
      then show ?thesis
        using Some eq own by (simp add: default_configuration_ready_raised)
    next
      case False
      then show ?thesis
        using Some eq default_configuration_not_ready [OF False, of emit_error] by simp
    qed
  qed
next
  fix s'
  assume ret: "setup_logging fileConfig emit_error config_path env_var st = Returns s'"
  show "(\<exists>p. fst (resolve_logging_config_path config_path env_var st) = Some p \<and>
              try_load fileConfig emit_error p st = Returns s') \<or>
         map h_kind (root_handlers s') =
           [StreamHandler, RotatingFileHandler (Path ''logs/app.log'') 5000000 5 ''utf-8'']"
  proof (cases "fallback_entry fileConfig emit_error config_path env_var st")
    case None
    then have "\<exists>p. fst (resolve_logging_config_path config_path env_var st) = Some p \<and>
              try_load fileConfig emit_error p st = Returns s'"
      using ret
      by (auto simp add: fallback_entry_def setup_logging_def resolve_find
          split: if_splits option.splits outcome.splits)
    then show ?thesis by blast
  next
    case (Some s)
    then have "default_configuration emit_error s = Returns s'"
      using ret by (simp add: setup_logging_fallback)
    then have "s' = configured_by_default s"
      by (simp add: default_configuration_returns)
    then show ?thesis
      by (simp add: root_handlers_configured console_handler_def h_kind_file)
  qed
qed

theorem setup_logging_raises_counterexample:
  "raised (setup_logging accepting_loader quiet None ''LOG_CFG'' logs_is_a_file)
     = Some FileExistsError
   \<and> raised (setup_logging rejecting_loader broken_handlers None ''LOG_CFG''
        default_config_only) = Some FileNotFoundError"
  by (simp add: logs_is_a_file_setup rejected_broken_setup)

text \<open>A malformed default configuration file in a writable directory, and the same with
  a regular file in place of the log directory.\<close>

theorem setup_logging_raises_only_without_log_sink_witness:
  "raised (setup_logging rejecting_loader quiet None ''LOG_CFG'' default_config_only) = None
   \<and> raised (setup_logging accepting_loader quiet None ''LOG_CFG'' logs_is_a_file) \<noteq> None"
proof -
  note t1 = setup_logging_raises_only_without_log_sink
    [of default_config_only "''LOG_CFG''" quiet rejecting_loader None, THEN conjunct1,
     rule_format, OF conjI [OF default_config_encodable own_calls_return_quiet]]
  note t2 = setup_logging_raises_only_without_log_sink
    [of logs_is_a_file "''LOG_CFG''" quiet accepting_loader None, THEN conjunct1,
     rule_format, OF conjI [OF logs_is_a_file_encodable own_calls_return_quiet]]
  have e2: "fallback_entry accepting_loader quiet None ''LOG_CFG'' logs_is_a_file
      = Some logs_is_a_file"
    by (rule fallback_entry_unresolved [OF logs_is_a_file_encodable logs_is_a_file_unresolved])
  have a: "raised (setup_logging rejecting_loader quiet None ''LOG_CFG'' default_config_only)
      = None"
    using t1 reported_ready by (simp add: rejected_entry)
  have b: "raised (setup_logging accepting_loader quiet None ''LOG_CFG'' logs_is_a_file)
      \<noteq> None"
    using t2 logs_is_a_file_not_ready by (simp add: e2)
  show ?thesis using a b by blast
qed

text \<open>
  C3. (As amended.) Whenever \<^verbatim>\<open>setup_logging\<close> reaches the default configuration (no
  configuration file is resolved, or the load fails and the report of line 101 returns)
  and the log directory can be created and the log file opened, it leaves exactly two
  handlers on the root logger, whatever handlers were installed before: the console
  handler, and a rotating file handler on \<^verbatim>\<open>logs/app.log\<close> (the directory \<^verbatim>\<open>logs\<close>
  created if absent) with 5,000,000 bytes, 5 backups, UTF-8 and the console handler's
  format. The file handler's level is the level given to the console configuration,
  which is the root logger's level; the console handler's own level stays
  \<^verbatim>\<open>NOTSET\<close>. The call then returns if its last logging call (line 130) returns.
\<close>

theorem fallback_installs_console_and_rotating_file:
  assumes "fallback_entry fileConfig emit_error config_path env_var st = Some s"
    and "log_sink_ready (fs s)"
  shows "root_handlers (final_state (setup_logging fileConfig emit_error config_path env_var st))
        = [\<lparr>h_kind = StreamHandler, h_level = logging_NOTSET, h_formatter = Some line_format\<rparr>,
           \<lparr>h_kind = RotatingFileHandler (Path ''logs/app.log'') 5000000 5 ''utf-8'',
            h_level = fallback_level s, h_formatter = Some line_format\<rparr>]
    \<and> lg_level (root (logging (final_state
          (setup_logging fileConfig emit_error config_path env_var st)))) = fallback_level s
    \<and> node (fs (final_state (setup_logging fileConfig emit_error config_path env_var st)))
          (Path ''logs'') = Directory
    \<and> node (fs (final_state (setup_logging fileConfig emit_error config_path env_var st)))
          (Path ''logs/app.log'') = RegularFile
    \<and> raised (setup_logging fileConfig emit_error config_path env_var st)
        = emit_error logger_module logging_DEBUG (installed_by_default s)"
proof -
  have eq: "setup_logging fileConfig emit_error config_path env_var st
      = default_configuration emit_error s"
    using assms(1) by (rule setup_logging_fallback)
  have fin: "final_state (setup_logging fileConfig emit_error config_path env_var st)
      = configured_by_default s"
    using assms(2) by (simp add: eq default_configuration_ready_final)
  have rai: "raised (setup_logging fileConfig emit_error config_path env_var st)
      = emit_error logger_module logging_DEBUG (installed_by_default s)"
    using assms(2) by (simp add: eq default_configuration_ready_raised)
  show ?thesis
    by (simp add: fin rai root_handlers_configured node_configured root_configured
        console_handler_def rotating_file_handler_def logging_NOTSET_def)
qed

theorem fallback_file_handler_counterexample:
  "map h_kind (root_handlers (final_state
      (setup_logging accepting_loader quiet None ''LOG_CFG'' fresh_state))) =
     [StreamHandler, RotatingFileHandler (Path ''logs/app.log'') 5000000 5 ''utf-8'']
   \<and> map h_level (root_handlers (final_state
      (setup_logging accepting_loader quiet None ''LOG_CFG'' fresh_state))) = [0, 20]
   \<and> raised (setup_logging accepting_loader quiet None ''LOG_CFG'' logs_is_a_file)
       = Some FileExistsError
   \<and> map h_kind (root_handlers (final_state
      (setup_logging accepting_loader quiet None ''LOG_CFG'' logs_is_a_file))) = [StreamHandler]
   \<and> raised (setup_logging rejecting_loader broken_handlers None ''LOG_CFG''
        default_config_only) = Some FileNotFoundError
   \<and> root_handlers (final_state (setup_logging rejecting_loader broken_handlers None
        ''LOG_CFG'' default_config_only)) = []"
proof -
  have none: "lg_handlers (root (logging reported)) = []"
    by (simp add: reported_def log_via_root default_config_only_def with_node_def
        fresh_state_def fresh_logging_def)
  show ?thesis
    by (simp add: fresh_setup logs_is_a_file_setup rejected_broken_setup root_configured
        fresh_level console_handler_def rotating_file_handler_def root_handlers_def none)
qed

theorem fallback_installs_console_and_rotating_file_witness:
  "length (root_handlers crowded_state) = 3
   \<and> raised (setup_logging accepting_loader quiet None ''LOG_CFG'' crowded_state) = None
   \<and> root_handlers (final_state
        (setup_logging accepting_loader quiet None ''LOG_CFG'' crowded_state))
       = [\<lparr>h_kind = StreamHandler, h_level = 0, h_formatter = Some line_format\<rparr>,
          \<lparr>h_kind = RotatingFileHandler (Path ''logs/app.log'') 5000000 5 ''utf-8'',
           h_level = 20, h_formatter = Some line_format\<rparr>]
   \<and> node (fs (final_state
        (setup_logging accepting_loader quiet None ''LOG_CFG'' crowded_state)))
        (Path ''logs'') = Directory"
  using fallback_installs_console_and_rotating_file
    [OF fallback_entry_unresolved [OF crowded_encodable crowded_unresolved] crowded_ready,
     of accepting_loader quiet]
  by (simp add: crowded_level logging_NOTSET_def quiet_def)
     (simp add: crowded_state_def root_handlers_def)

text \<open>
  C4. (As amended.) For every two consecutive \<^verbatim>\<open>setup_logging\<close> calls that both take
  the fallback path and return, the root logger has two handlers after the first call
  and two after the second, of the same kinds, one of them a rotating file handler:
  \<^verbatim>\<open>force=True\<close> removes every handler of the root logger, the earlier file handler
  included, so the count does not grow and no file handler is duplicated.
\<close>

theorem repeated_fallback_keeps_two_handlers:
  assumes "fallback_entry fileConfig1 emit_error1 config_path1 env_var1 st = Some s1"
    and "setup_logging fileConfig1 emit_error1 config_path1 env_var1 st = Returns st1"
    and "fallback_entry fileConfig2 emit_error2 config_path2 env_var2 st1 = Some s2"
    and "setup_logging fileConfig2 emit_error2 config_path2 env_var2 st1 = Returns st2"
  shows "length (root_handlers st1) = 2 \<and> length (root_handlers st2) = 2
    \<and> length (filter is_rotating (root_handlers st2)) = 1
    \<and> map h_kind (root_handlers st2) = map h_kind (root_handlers st1)"
  using fallback_returns_handlers [OF assms(1,2)] fallback_returns_handlers [OF assms(3,4)]
  by (simp add: is_rotating_console is_rotating_file h_kind_file del: is_rotating.simps)

theorem repeated_fallback_counterexample:
  "\<not> (\<exists>fileConfig1 emit_error1 config_path1 env_var1 st s1 st1
         fileConfig2 emit_error2 config_path2 env_var2 s2 st2.
        fallback_entry fileConfig1 emit_error1 config_path1 env_var1 st = Some s1 \<and>
        setup_logging fileConfig1 emit_error1 config_path1 env_var1 st = Returns st1 \<and>
        fallback_entry fileConfig2 emit_error2 config_path2 env_var2 st1 = Some s2 \<and>
        setup_logging fileConfig2 emit_error2 config_path2 env_var2 st1 = Returns st2 \<and>
        length (root_handlers st1) < length (root_handlers st2))"
proof
  assume "\<exists>fileConfig1 emit_error1 config_path1 env_var1 st s1 st1
         fileConfig2 emit_error2 config_path2 env_var2 s2 st2.
        fallback_entry fileConfig1 emit_error1 config_path1 env_var1 st = Some s1 \<and>
        setup_logging fileConfig1 emit_error1 config_path1 env_var1 st = Returns st1 \<and>
        fallback_entry fileConfig2 emit_error2 config_path2 env_var2 st1 = Some s2 \<and>
        setup_logging fileConfig2 emit_error2 config_path2 env_var2 st1 = Returns st2 \<and>
        length (root_handlers st1) < length (root_handlers st2)"
  then obtain fileConfig1 emit_error1 config_path1 env_var1 st s1 st1
      fileConfig2 emit_error2 config_path2 env_var2 s2 st2
    where a: "fallback_entry fileConfig1 emit_error1 config_path1 env_var1 st = Some s1"
      and b: "setup_logging fileConfig1 emit_error1 config_path1 env_var1 st = Returns st1"
      and c: "fallback_entry fileConfig2 emit_error2 config_path2 env_var2 st1 = Some s2"
      and d: "setup_logging fileConfig2 emit_error2 config_path2 env_var2 st1 = Returns st2"
      and grows: "length (root_handlers st1) < length (root_handlers st2)"
    by blast
  from fallback_returns_handlers [OF a b] fallback_returns_handlers [OF c d] grows
  show False by simp
qed

theorem repeated_fallback_keeps_two_handlers_witness:
  "length (root_handlers (final_state (setup_logging accepting_loader quiet None ''LOG_CFG''
      fresh_state))) = 2
   \<and> length (root_handlers (final_state (setup_logging accepting_loader quiet None ''LOG_CFG''
        (final_state (setup_logging accepting_loader quiet None ''LOG_CFG'' fresh_state))))) = 2
   \<and> length (filter is_rotating (root_handlers (final_state
        (setup_logging accepting_loader quiet None ''LOG_CFG''
          (final_state (setup_logging accepting_loader quiet None ''LOG_CFG''
             fresh_state)))))) = 1"
  using repeated_fallback_keeps_two_handlers
    [OF fresh_entry [of accepting_loader quiet]
        fresh_setup [of accepting_loader]
        fallback_entry_unresolved [OF configured_encodable configured_unresolved,
          of accepting_loader quiet]
        second_setup [of accepting_loader]]
  by (simp add: fresh_setup second_setup)

text \<open>
  C5. (As amended.) When a configuration path is resolved and loading it fails,
  \<^verbatim>\<open>setup_logging\<close> catches the exception and reports it with a logging call at error
  severity that has the exception attached. When that call returns, it goes on to
  install the default configuration: with the log file available the root logger gets
  the console handler and the rotating file handler.
\<close>

theorem load_failure_logged_then_fallback:
  assumes "encodable st env_var"
    and "fst (resolve_logging_config_path config_path env_var st) = Some p"
    and "fileConfig (str p) False st = Raises e st2"
  shows "\<lparr>lc_logger = fst (logging_getLogger logger_module (logging st2)),
        lc_level = logging_ERROR,
        lc_msg = ''Failed to configure logging from %s. Falling back to basicConfig.'',
        lc_args = [str p], lc_exc_info = Some e\<rparr>
        \<in> set (calls (logging (final_state
              (setup_logging fileConfig emit_error config_path env_var st))))
    \<and> (emit_error logger_module logging_ERROR st2 = None \<longrightarrow>
         setup_logging fileConfig emit_error config_path env_var st =
           default_configuration emit_error (st2\<lparr>logging := log_via logger_module logging_ERROR
              ''Failed to configure logging from %s. Falling back to basicConfig.''
              [str p] (Some e) (logging st2)\<rparr>) \<and>
         (log_sink_ready (fs st2) \<longrightarrow>
            root_handlers (final_state
                (setup_logging fileConfig emit_error config_path env_var st)) =
              [console_handler, rotating_file_handler (fallback_level st2)]))"
proof -
  let ?s = "st2\<lparr>logging := log_via logger_module logging_ERROR
          ''Failed to configure logging from %s. Falling back to basicConfig.''
          [str p] (Some e) (logging st2)\<rparr>"
  let ?call = "\<lparr>lc_logger = fst (logging_getLogger logger_module (logging st2)),
        lc_level = logging_ERROR,
        lc_msg = ''Failed to configure logging from %s. Falling back to basicConfig.'',
        lc_args = [str p], lc_exc_info = Some e\<rparr>"
  have tl: "try_load fileConfig emit_error p st = Raises e st2"
    using assms(3) by (rule try_load_failed)
  have logged: "?call \<in> set (calls (logging ?s))"
    by (simp add: log_via_calls)
  have first: "?call \<in> set (calls (logging (final_state
              (setup_logging fileConfig emit_error config_path env_var st))))"
  proof (cases "emit_error logger_module logging_ERROR st2")
    case None
    have "setup_logging fileConfig emit_error config_path env_var st
        = default_configuration emit_error ?s"
      by (rule setup_logging_fallback [OF fallback_entry_failed [OF assms(1,2) tl None]])
    then show ?thesis
      using logged default_configuration_keeps_calls [of ?s emit_error] by auto
  next
    case (Some e')
    have "setup_logging fileConfig emit_error config_path env_var st = Raises e' ?s"
      by (rule setup_logging_report_raises (1) [OF assms(1,2) tl Some])
    then show ?thesis using logged by simp
  qed
  have second: "emit_error logger_module logging_ERROR st2 = None \<Longrightarrow>
      setup_logging fileConfig emit_error config_path env_var st
        = default_configuration emit_error ?s"
    by (rule setup_logging_fallback [OF fallback_entry_failed [OF assms(1,2) tl]])
  have lvl: "fallback_level ?s = fallback_level st2"
    by (simp add: fallback_level_def)
  have third: "emit_error logger_module logging_ERROR st2 = None \<Longrightarrow>
      log_sink_ready (fs st2) \<Longrightarrow>
      root_handlers (final_state (setup_logging fileConfig emit_error config_path env_var st))
        = [console_handler, rotating_file_handler (fallback_level st2)]"
    using lvl
    by (simp add: second default_configuration_ready_final root_handlers_configured)
  show ?thesis using first second third by blast
qed

theorem load_failure_counterexample:
  "fst (resolve_logging_config_path None ''LOG_CFG'' default_config_only)
     = Some (Path ''config/logging.conf'')
   \<and> rejecting_loader (str (Path ''config/logging.conf'')) False default_config_only
     = Raises (ConfigError ''config/logging.conf'') default_config_only
   \<and> raised (setup_logging rejecting_loader broken_handlers None ''LOG_CFG''
        default_config_only) = Some FileNotFoundError
   \<and> root_handlers (final_state (setup_logging rejecting_loader broken_handlers None
        ''LOG_CFG'' default_config_only)) = []
   \<and> node (fs (final_state (setup_logging rejecting_loader broken_handlers None
        ''LOG_CFG'' default_config_only))) (Path ''logs/app.log'') = Missing"
proof -
  have none: "lg_handlers (root (logging reported)) = []"
    by (simp add: reported_def log_via_root default_config_only_def with_node_def
        fresh_state_def fresh_logging_def)
  have miss: "node (fs reported) (Path ''logs/app.log'') = Missing"
    by (simp add: reported_def default_config_only_def with_node_def fresh_state_def
        fresh_fs_def)
  show ?thesis
    by (simp add: default_config_resolved rejecting_loader_def str_default
        rejected_broken_setup root_handlers_def none miss)
qed

theorem load_failure_logged_then_fallback_witness:
  "raised (setup_logging rejecting_loader quiet None ''LOG_CFG'' default_config_only) = None
   \<and> map lc_level (calls (logging (final_state
        (setup_logging rejecting_loader quiet None ''LOG_CFG'' default_config_only))))
       = [40, 10]
   \<and> map lc_exc_info (calls (logging (final_state
        (setup_logging rejecting_loader quiet None ''LOG_CFG'' default_config_only))))
       = [Some (ConfigError ''config/logging.conf''), None]
   \<and> map h_kind (root_handlers (final_state
        (setup_logging rejecting_loader quiet None ''LOG_CFG'' default_config_only)))
       = [StreamHandler, RotatingFileHandler (Path ''logs/app.log'') 5000000 5 ''utf-8'']"
proof -
  have fails: "rejecting_loader (str (Path ''config/logging.conf'')) False default_config_only
      = Raises (ConfigError ''config/logging.conf'') default_config_only"
    by (simp add: rejecting_loader_def str_default)
  note t = load_failure_logged_then_fallback
    [where fileConfig = rejecting_loader and emit_error = quiet and env_var = "''LOG_CFG''",
     OF default_config_encodable default_config_resolved fails]
  have q: "quiet logger_module logging_ERROR default_config_only = None"
    by (simp add: quiet_def)
  have eq: "setup_logging rejecting_loader quiet None ''LOG_CFG'' default_config_only
      = default_configuration quiet reported"
    using t [THEN conjunct2, rule_format, OF q, THEN conjunct1]
    by (simp add: str_default reported_def)
  have c0: "calls (logging default_config_only) = []"
    by (simp add: default_config_only_def with_node_def fresh_state_def fresh_logging_def)
  have cs: "map lc_level (calls (logging (configured_by_default reported))) = [40, 10]
     \<and> map lc_exc_info (calls (logging (configured_by_default reported)))
       = [Some (ConfigError ''config/logging.conf''), None]"
    by (simp add: calls_configured reported_def log_via_calls c0 logging_ERROR_def
        logging_DEBUG_def)
  show ?thesis
    using cs
    by (simp add: eq default_configuration_quiet reported_ready root_handlers_configured
        console_handler_def h_kind_file)
qed

text \<open>
  C6. On the fallback path the level is DEBUG if and only if the environment variable
  \<^verbatim>\<open>DEBUG\<close> equals the string "1"; for any other value, and when the variable is
  unset, it is INFO. That level becomes the root logger's level.
\<close>

theorem fallback_level_debug_iff:
  "fst (select_log_level st) =
     (if environ st ''DEBUG'' = Some ''1'' then logging_DEBUG else logging_INFO)
   \<and> (fst (select_log_level st) = logging_DEBUG \<longleftrightarrow> environ st ''DEBUG'' = Some ''1'')
   \<and> (fst (select_log_level st) = logging_INFO \<longleftrightarrow> environ st ''DEBUG'' \<noteq> Some ''1'')
   \<and> (fallback_entry fileConfig emit_error config_path env_var st = Some s \<longrightarrow>
        lg_level (root (logging (final_state
            (setup_logging fileConfig emit_error config_path env_var st))))
          = fst (select_log_level s))"
  by (auto simp add: select_log_level_eq fallback_level_def logging_DEBUG_def logging_INFO_def
      setup_logging_fallback default_configuration_root_level)

theorem fallback_level_debug_iff_witness:
  "lg_level (root (logging (final_state
      (setup_logging accepting_loader quiet None ''LOG_CFG'' debug_on)))) = 10
   \<and> lg_level (root (logging (final_state
      (setup_logging accepting_loader quiet None ''LOG_CFG'' debug_true)))) = 20
   \<and> lg_level (root (logging (final_state
      (setup_logging accepting_loader quiet None ''LOG_CFG'' fresh_state)))) = 20"
proof -
  have r1: "fst (resolve_logging_config_path None ''LOG_CFG'' debug_on) = None"
    by (simp add: resolve_find spec_candidate_list_def exists_as_regular_file_def
        debug_on_def with_env_def fresh_state_def fresh_fs_def)
  have r2: "fst (resolve_logging_config_path None ''LOG_CFG'' debug_true) = None"
    by (simp add: resolve_find spec_candidate_list_def exists_as_regular_file_def
        debug_true_def with_env_def fresh_state_def fresh_fs_def)
  have n1: "encodable debug_on ''LOG_CFG''"
    by (simp add: debug_on_def encodable_with_env encodable_fresh)
  have n2: "encodable debug_true ''LOG_CFG''"
    by (simp add: debug_true_def encodable_with_env encodable_fresh)
  have e1: "environ debug_on ''DEBUG'' = Some ''1''"
    by (simp add: debug_on_def with_env_def)
  have e2: "environ debug_true ''DEBUG'' = Some ''true''"
    by (simp add: debug_true_def with_env_def)
  have e3: "environ fresh_state ''DEBUG'' = None"
    by (simp add: fresh_state_def)
  note t1 = fallback_level_debug_iff
    [of debug_on accepting_loader quiet None "''LOG_CFG''" debug_on]
  note t2 = fallback_level_debug_iff
    [of debug_true accepting_loader quiet None "''LOG_CFG''" debug_true]
  note t3 = fallback_level_debug_iff
    [of fresh_state accepting_loader quiet None "''LOG_CFG''" fresh_state]
  have a: "lg_level (root (logging (final_state
      (setup_logging accepting_loader quiet None ''LOG_CFG'' debug_on)))) = 10"
    using t1 fallback_entry_unresolved [OF n1 r1, of accepting_loader quiet] e1
    by (simp add: logging_DEBUG_def)
  have b: "lg_level (root (logging (final_state
      (setup_logging accepting_loader quiet None ''LOG_CFG'' debug_true)))) = 20"
    using t2 fallback_entry_unresolved [OF n2 r2, of accepting_loader quiet] e2
    by (simp add: logging_INFO_def)
  have c: "lg_level (root (logging (final_state
      (setup_logging accepting_loader quiet None ''LOG_CFG'' fresh_state)))) = 20"
    using t3 fresh_entry [of accepting_loader quiet] e3
    by (simp add: logging_INFO_def)
  show ?thesis using a b c by blast
qed

text \<open>
  C7. (As amended.) When a configuration path is resolved, loading it succeeds and the
  debug call of line 96 returns, the file has been loaded with
  \<^verbatim>\<open>disable_existing_loggers=False\<close> and \<^verbatim>\<open>setup_logging\<close> returns at once: the
  state is the one the loader left, with that one debug call recorded. Nothing of the
  fallback is installed: the root logger and its handlers, the filesystem (so
  \<^verbatim>\<open>logs\<close> and \<^verbatim>\<open>logs/app.log\<close>) and the environment are as the loader left them,
  and every registered logger stays registered.
\<close>

theorem loaded_configuration_returns_at_once:
  assumes "encodable st env_var"
    and "fst (resolve_logging_config_path config_path env_var st) = Some p"
    and "fileConfig (str p) False st = Returns st2"
    and "emit_error logger_module logging_DEBUG st2 = None"
  shows "setup_logging fileConfig emit_error config_path env_var st =
       Returns (st2\<lparr>logging := log_via logger_module logging_DEBUG
          ''Logging configured from file: %s'' [as_posix p] None (logging st2)\<rparr>)
    \<and> fallback_entry fileConfig emit_error config_path env_var st = None
    \<and> root (logging (final_state (setup_logging fileConfig emit_error config_path env_var st)))
        = root (logging st2)
    \<and> fs (final_state (setup_logging fileConfig emit_error config_path env_var st)) = fs st2
    \<and> environ (final_state (setup_logging fileConfig emit_error config_path env_var st))
        = environ st2
    \<and> (\<forall>n a. loggerDict (logging st2) n = Some a \<longrightarrow>
          loggerDict (logging (final_state
              (setup_logging fileConfig emit_error config_path env_var st))) n = Some a)"
proof -
  have tl: "try_load fileConfig emit_error p st =
      Returns (st2\<lparr>logging := log_via logger_module logging_DEBUG
          ''Logging configured from file: %s'' [as_posix p] None (logging st2)\<rparr>)"
    using assms(3,4) by (simp add: try_load_def logger_call_def)
  show ?thesis
    using setup_logging_loaded [OF assms(1,2) tl]
    by (simp add: log_via_root log_via_loggerDict)
qed

theorem loaded_configuration_counterexample:
  "fst (resolve_logging_config_path (Some (StrArg ''my.conf'')) ''LOG_CFG'' three_configs)
     = Some (Path ''my.conf'')
   \<and> accepting_loader (str (Path ''my.conf'')) False three_configs = Returns three_configs
   \<and> raised (setup_logging accepting_loader broken_handlers (Some (StrArg ''my.conf''))
        ''LOG_CFG'' three_configs) = Some FileNotFoundError
   \<and> raised (setup_logging accepting_loader broken_debug_handlers (Some (StrArg ''my.conf''))
        ''LOG_CFG'' three_configs) = Some FileNotFoundError
   \<and> map h_kind (root_handlers (final_state
        (setup_logging accepting_loader broken_debug_handlers (Some (StrArg ''my.conf''))
           ''LOG_CFG'' three_configs)))
       = [StreamHandler, RotatingFileHandler (Path ''logs/app.log'') 5000000 5 ''utf-8'']
   \<and> node (fs (final_state
        (setup_logging accepting_loader broken_debug_handlers (Some (StrArg ''my.conf''))
           ''LOG_CFG'' three_configs))) (Path ''logs'') = Directory"
proof -
  let ?after96 = "three_configs\<lparr>logging := log_via logger_module logging_DEBUG
      ''Logging configured from file: %s'' [as_posix (Path ''my.conf'')] None
      (logging three_configs)\<rparr>"
  let ?after101 = "?after96\<lparr>logging := log_via logger_module logging_ERROR
      ''Failed to configure logging from %s. Falling back to basicConfig.''
      [str (Path ''my.conf'')] (Some FileNotFoundError) (logging ?after96)\<rparr>"
  have tl1: "try_load accepting_loader broken_handlers (Path ''my.conf'') three_configs
      = Raises FileNotFoundError ?after96"
    by (simp add: try_load_def accepting_loader_def logger_call_def broken_handlers_def)
  have tl2: "try_load accepting_loader broken_debug_handlers (Path ''my.conf'') three_configs
      = Raises FileNotFoundError ?after96"
    by (simp add: try_load_def accepting_loader_def logger_call_def
        broken_debug_handlers_def)
  have b1: "broken_handlers logger_module logging_ERROR ?after96 = Some FileNotFoundError"
    by (simp add: broken_handlers_def)
  have b2: "broken_debug_handlers logger_module logging_ERROR ?after96 = None"
    by (simp add: broken_debug_handlers_def logging_ERROR_def logging_DEBUG_def)
  have r1: "setup_logging accepting_loader broken_handlers (Some (StrArg ''my.conf''))
      ''LOG_CFG'' three_configs = Raises FileNotFoundError ?after101"
    by (rule setup_logging_report_raises (1)
        [OF three_configs_encodable my_conf_resolved tl1 b1])
  have entry: "fallback_entry accepting_loader broken_debug_handlers
      (Some (StrArg ''my.conf'')) ''LOG_CFG'' three_configs = Some ?after101"
    by (rule fallback_entry_failed [OF three_configs_encodable my_conf_resolved tl2 b2])
  have ready: "log_sink_ready (fs ?after101)"
    using three_configs_ready by simp
  have r2: "setup_logging accepting_loader broken_debug_handlers (Some (StrArg ''my.conf''))
      ''LOG_CFG'' three_configs = default_configuration broken_debug_handlers ?after101"
    by (rule setup_logging_fallback [OF entry])
  have fin: "final_state (default_configuration broken_debug_handlers ?after101)
      = configured_by_default ?after101"
    by (rule default_configuration_ready_final [OF ready])
  have rai: "raised (default_configuration broken_debug_handlers ?after101)
      = Some FileNotFoundError"
    using default_configuration_ready_raised [OF ready, of broken_debug_handlers]
    by (simp add: broken_debug_handlers_def)
  have k: "map h_kind (root_handlers (configured_by_default ?after101))
      = [StreamHandler, RotatingFileHandler (Path ''logs/app.log'') 5000000 5 ''utf-8'']"
    by (simp add: root_handlers_configured console_handler_def h_kind_file)
  have d: "node (fs (configured_by_default ?after101)) (Path ''logs'') = Directory"
    by (simp add: node_configured)
  show ?thesis
    using r1 r2 fin rai k d
    by (simp add: my_conf_resolved accepting_loader_def)
qed

theorem loaded_configuration_returns_at_once_witness:
  "raised (setup_logging accepting_loader quiet (Some (StrArg ''my.conf'')) ''LOG_CFG''
      three_configs) = None
   \<and> root_handlers (final_state (setup_logging accepting_loader quiet
        (Some (StrArg ''my.conf'')) ''LOG_CFG'' three_configs)) = []
   \<and> node (fs (final_state (setup_logging accepting_loader quiet
        (Some (StrArg ''my.conf'')) ''LOG_CFG'' three_configs))) (Path ''logs'') = Missing
   \<and> node (fs (final_state (setup_logging accepting_loader quiet
        (Some (StrArg ''my.conf'')) ''LOG_CFG'' three_configs))) (Path ''logs/app.log'')
       = Missing"
proof -
  have loads: "accepting_loader (str (Path ''my.conf'')) False three_configs
      = Returns three_configs"
    by (simp add: accepting_loader_def)
  have q: "quiet logger_module logging_DEBUG three_configs = None"
    by (simp add: quiet_def)
  note t = loaded_configuration_returns_at_once
    [where fileConfig = accepting_loader and emit_error = quiet and env_var = "''LOG_CFG''",
     OF three_configs_encodable my_conf_resolved loads q]
  have h: "lg_handlers (root (logging three_configs)) = []"
    by (simp add: three_configs_def with_node_def with_env_def fresh_state_def
        fresh_logging_def)
  have n1: "node (fs three_configs) (Path ''logs'') = Missing"
    by (simp add: three_configs_def with_node_def with_env_def fresh_state_def fresh_fs_def)
  have n2: "node (fs three_configs) (Path ''logs/app.log'') = Missing"
    by (simp add: three_configs_def with_node_def with_env_def fresh_state_def fresh_fs_def)
  show ?thesis
    using t h n1 n2 by (simp add: root_handlers_def log_via_root)
qed

end
